theory Spec2Isabelle
  imports Main "HOL-Library.AList" "HOL-Library.Word"
begin

unbundle bit_operations_syntax

section \<open>Strings\<close>

text \<open>
  A JavaScript string is modelled as a \<^typ>\<open>string\<close>: the sequence of its bytes in
  UTF-8. \<open>trim\<close> strips the ASCII white space characters (tab, line feed, vertical tab,
  form feed, carriage return, space) and \<open>toLowerCase\<close> maps \<open>A\<close>..\<open>Z\<close> to
  \<open>a\<close>..\<open>z\<close>; the white space and the case mappings that JavaScript knows outside ASCII
  are not part of the model, where every byte above 127 is an ordinary character.
\<close>

definition isWhiteSpace :: "char \<Rightarrow> bool" where
  "isWhiteSpace c = (c \<in> set [CHR 0x09, CHR 0x0A, CHR 0x0B, CHR 0x0C, CHR 0x0D, CHR 0x20])"

definition trim :: "string \<Rightarrow> string" where
  "trim s = rev (dropWhile isWhiteSpace (rev (dropWhile isWhiteSpace s)))"

definition lowerChar :: "char \<Rightarrow> char" where
  "lowerChar c =
     (case map_of (zip ''ABCDEFGHIJKLMNOPQRSTUVWXYZ'' ''abcdefghijklmnopqrstuvwxyz'') c of
        Some d \<Rightarrow> d
      | None \<Rightarrow> c)"

definition toLowerCase :: "string \<Rightarrow> string" where
  "toLowerCase s = map lowerChar s"

text \<open>\<open>haystack.includes(needle)\<close>\<close>

fun str_includes :: "string \<Rightarrow> string \<Rightarrow> bool" where
  "str_includes [] needle = (needle = [])"
| "str_includes (c # cs) needle =
     (take (length needle) (c # cs) = needle \<or> str_includes cs needle)"

text \<open>The truth value of an optional string: \<open>undefined\<close>, \<open>null\<close> and \<open>""\<close> are falsy.\<close>

fun truthy :: "string option \<Rightarrow> bool" where
  "truthy None = False"
| "truthy (Some s) = (s \<noteq> [])"

section \<open>Warning events and reply payloads\<close>

record EmbeddedPiWarningEvent =
  w_kind :: string
  w_text :: string
  w_toolName :: string
  w_toolSummary :: string
  w_errorText :: "string option"
  w_isMutating :: bool
  w_fingerprint :: string
  w_ts :: int

record ReplyPayload =
  p_text :: "string option"
  p_mediaUrl :: "string option"
  p_mediaUrls :: "string list option"
  p_replyToId :: "string option"
  p_isError :: "bool option"
  p_audioAsVoice :: "bool option"
  p_replyToTag :: "bool option"
  p_replyToCurrent :: "bool option"

text \<open>The object literal \<open>{ text, isError: true }\<close>.\<close>

definition errorPayload :: "string \<Rightarrow> ReplyPayload" where
  "errorPayload t =
     \<lparr> p_text = Some t, p_mediaUrl = None, p_mediaUrls = None, p_replyToId = None,
       p_isError = Some True, p_audioAsVoice = None, p_replyToTag = None, p_replyToCurrent = None \<rparr>"

section \<open>Warning routing\<close>

subsection \<open>Configuration and environment\<close>

text \<open>
  The fields of \<open>OpenClawConfig\<close> that the router and the payload builder read. Every
  one is reached through optional chaining (\<open>cfg.messages?.toolWarnings?.enabled\<close>), so
  a missing parent object and a missing leaf are the same \<open>None\<close>.
\<close>

record OpenClawConfig =
  suppressToolErrors :: "bool option"
  tw_enabled :: "bool option"
  tw_target :: "string option"
  tw_to :: "string option"
  tw_execOnly :: "bool option"
  tw_fallbackToUserChat :: "bool option"
  tw_dedupeWindowMs :: "int option"
  hb_target :: "string option"
  hb_to :: "string option"

record WarningRoute =
  r_channel :: string
  r_to :: string

record WarningRoutingPolicy =
  enabled :: bool
  route :: "WarningRoute option"
  execOnly :: bool
  fallbackToUserChat :: bool
  dedupeWindowMs :: int
  policySuppressToolErrors :: bool

record RouteRequest =
  rq_payload :: ReplyPayload
  rq_channel :: string
  rq_to :: string
  rq_sessionKey :: "string option"
  rq_cfg :: OpenClawConfig
  rq_mirror :: bool

record RouteResult =
  rr_ok :: bool
  rr_error :: "string option"

text \<open>
  What the router takes from outside: the process environment, the clock (\<open>dateNow n\<close> is
  what the \<open>n\<close>-th reading of \<open>Date.now()\<close> returns), and the two functions of the
  channel delivery module, \<open>isRoutableChannel\<close> and \<open>routeReply\<close> (\<open>routeReply n\<close>
  answers the \<open>n\<close>-th delivery request).
\<close>

record RouterEnv =
  processEnv :: "string \<Rightarrow> string option"
  dateNow :: "nat \<Rightarrow> int"
  isRoutableChannel :: "string \<Rightarrow> bool"
  routeReply :: "nat \<Rightarrow> RouteRequest \<Rightarrow> RouteResult"

definition DEFAULT_WARNING_DEDUPE_WINDOW_MS :: int where
  "DEFAULT_WARNING_DEDUPE_WINDOW_MS = 10 * 60 * 1000"

definition WARNING_FINGERPRINT_CACHE_LIMIT :: nat where
  "WARNING_FINGERPRINT_CACHE_LIMIT = 1024"

definition OPENCLAW_TOOL_WARNINGS_ENABLED :: string where
  "OPENCLAW_TOOL_WARNINGS_ENABLED = ''OPENCLAW_TOOL_WARNINGS_ENABLED''"

subsection \<open>The fingerprint cache\<close>

text \<open>
  \<open>warningFingerprintSeenAt\<close> is a JavaScript \<open>Map\<close>: it keeps its keys in insertion
  order, \<open>set\<close> overwrites the value of a key in place or appends a new key, and the keys
  are distinct. It is an association list with \<^const>\<open>AList.update\<close> and
  \<^const>\<open>AList.delete\<close>.
\<close>

type_synonym cache = "(string \<times> int) list"

text \<open>One step of the eviction loop: \<open>if (key) delete(key)\<close>; the empty key is falsy.\<close>

definition evictKey :: "cache \<Rightarrow> string \<times> int \<Rightarrow> cache" where
  "evictKey m e = (if fst e \<noteq> [] then AList.delete (fst e) m else m)"

text \<open>
  The sweep over \<open>entries()\<close>: the iteration deletes nothing but the entry it is at, so
  it visits the entries the map had when the loop began.
\<close>

fun sweepCache :: "int \<Rightarrow> (string \<times> int) list \<Rightarrow> cache \<Rightarrow> cache" where
  "sweepCache now [] m = m"
| "sweepCache now ((key, ts) # rest) m =
     (let m' = (if now - ts > DEFAULT_WARNING_DEDUPE_WINDOW_MS * 6
                then AList.delete key m else m)
      in if length m' \<le> WARNING_FINGERPRINT_CACHE_LIMIT then m' else sweepCache now rest m')"

definition pruneWarningFingerprintCache :: "int \<Rightarrow> cache \<Rightarrow> cache" where
  "pruneWarningFingerprintCache now m =
     (if length m \<le> WARNING_FINGERPRINT_CACHE_LIMIT then m
      else
        let sorted = sort_key snd m;
            excess = length m - WARNING_FINGERPRINT_CACHE_LIMIT;
            m1 = foldl evictKey m (take excess sorted)
        in if length m1 > WARNING_FINGERPRINT_CACHE_LIMIT then sweepCache now m1 m1 else m1)"

definition shouldEmitByFingerprintRateLimit ::
  "string \<Rightarrow> int \<Rightarrow> int \<Rightarrow> cache \<Rightarrow> bool \<times> cache" where
  "shouldEmitByFingerprintRateLimit fingerprint windowMs now m =
     (case map_of m fingerprint of
        Some lastSeen \<Rightarrow>
          if now - lastSeen < windowMs then (False, m)
          else (True, pruneWarningFingerprintCache now (AList.update fingerprint now m))
      | None \<Rightarrow> (True, pruneWarningFingerprintCache now (AList.update fingerprint now m)))"

subsection \<open>Policy resolution\<close>

definition orElse :: "'a option \<Rightarrow> 'a option \<Rightarrow> 'a option" where
  "orElse a b = (case a of Some x \<Rightarrow> Some x | None \<Rightarrow> b)"

definition resolveWarningRoute :: "RouterEnv \<Rightarrow> OpenClawConfig \<Rightarrow> WarningRoute option" where
  "resolveWarningRoute E cfg =
     (case (orElse (tw_target cfg) (hb_target cfg), orElse (tw_to cfg) (hb_to cfg)) of
        (Some targetRaw, Some toRaw) \<Rightarrow>
          (let ch = toLowerCase (trim targetRaw); dest = trim toRaw
           in if \<not> isRoutableChannel E ch \<or> dest = [] then None
              else Some \<lparr> r_channel = ch, r_to = dest \<rparr>)
      | _ \<Rightarrow> None)"

definition parseOptionalBoolEnv :: "RouterEnv \<Rightarrow> string \<Rightarrow> bool option" where
  "parseOptionalBoolEnv E name =
     (case processEnv E name of
        None \<Rightarrow> None
      | Some v \<Rightarrow>
          (let raw = toLowerCase (trim v)
           in if raw = [] then None
              else if raw \<in> set [''1'', ''true'', ''yes'', ''on''] then Some True
              else if raw \<in> set [''0'', ''false'', ''no'', ''off''] then Some False
              else None))"

definition resolveWarningPolicy :: "RouterEnv \<Rightarrow> OpenClawConfig \<Rightarrow> WarningRoutingPolicy" where
  "resolveWarningPolicy E cfg =
     (let dedupe = max 1000 (case tw_dedupeWindowMs cfg of Some d \<Rightarrow> d
                               | None \<Rightarrow> DEFAULT_WARNING_DEDUPE_WINDOW_MS);
          envEnabled = parseOptionalBoolEnv E OPENCLAW_TOOL_WARNINGS_ENABLED
      in \<lparr> enabled = (case envEnabled of Some b \<Rightarrow> b
                       | None \<Rightarrow> (case tw_enabled cfg of Some b \<Rightarrow> b | None \<Rightarrow> False)),
           route = resolveWarningRoute E cfg,
           execOnly = (case tw_execOnly cfg of Some b \<Rightarrow> b | None \<Rightarrow> True),
           fallbackToUserChat = (case tw_fallbackToUserChat cfg of Some b \<Rightarrow> b | None \<Rightarrow> True),
           dedupeWindowMs = dedupe,
           policySuppressToolErrors = (suppressToolErrors cfg = Some True) \<rparr>)"

subsection \<open>Routing decisions\<close>

definition isExecLikeWarning :: "EmbeddedPiWarningEvent \<Rightarrow> bool" where
  "isExecLikeWarning warning =
     (let normalized = toLowerCase (trim (w_toolName warning))
      in normalized = ''exec'' \<or> normalized = ''bash'')"

definition shouldRouteWarningToWarningsChannel ::
  "EmbeddedPiWarningEvent \<Rightarrow> WarningRoutingPolicy \<Rightarrow> bool" where
  "shouldRouteWarningToWarningsChannel warning policy =
     (if route policy = None then False
      else if \<not> execOnly policy then True
      else isExecLikeWarning warning)"

definition shouldRouteWarningToUserChat ::
  "WarningRoutingPolicy \<Rightarrow> EmbeddedPiWarningEvent \<Rightarrow> bool \<Rightarrow> bool \<Rightarrow> bool" where
  "shouldRouteWarningToUserChat policy warning warningRouteAttempted warningRouteSucceeded =
     (if policySuppressToolErrors policy then False
      else if \<not> shouldRouteWarningToWarningsChannel warning policy then True
      else if \<not> warningRouteAttempted then fallbackToUserChat policy
      else if warningRouteSucceeded then False
      else fallbackToUserChat policy)"

subsection \<open>The router\<close>

text \<open>
  The state the router reads and writes: the process-wide cache, the number of clock
  readings and, as a trace of its effects, the delivery requests handed to
  \<open>routeReply\<close> and the lines written with \<open>defaultRuntime.error\<close>, oldest first.
\<close>

record RouterState =
  seenAt :: cache
  ticks :: nat
  sent :: "RouteRequest list"
  errorLog :: "string list"

text \<open>The legacy loop, with its accumulators \<open>userPayloads\<close> and \<open>seenWarnings\<close>.\<close>

fun legacyLoop ::
  "EmbeddedPiWarningEvent list \<Rightarrow> ReplyPayload list \<Rightarrow> string list \<Rightarrow> ReplyPayload list" where
  "legacyLoop [] userPayloads seenWarnings = userPayloads"
| "legacyLoop (warning # rest) userPayloads seenWarnings =
     (let t = trim (w_text warning)
      in if t = [] \<or> t \<in> set seenWarnings then legacyLoop rest userPayloads seenWarnings
         else legacyLoop rest (userPayloads @ [errorPayload t]) (t # seenWarnings))"

text \<open>
  The body of the routed loop once a warning has passed the rate limiter at state \<open>st\<close>:
  the delivery attempt and the user-chat decision. It returns the payload for the user
  chat, if any, and the new state.
\<close>

definition deliverWarning ::
  "RouterEnv \<Rightarrow> OpenClawConfig \<Rightarrow> string option \<Rightarrow> WarningRoutingPolicy \<Rightarrow>
   EmbeddedPiWarningEvent \<Rightarrow> string \<Rightarrow> RouterState \<Rightarrow> ReplyPayload option \<times> RouterState" where
  "deliverWarning E cfg sessionKey policy warning t st =
     (let shouldRoute = shouldRouteWarningToWarningsChannel warning policy;
          (routeAttempted, routed, st') =
            (case route policy of
               Some r \<Rightarrow>
                 if shouldRoute then
                   (let rq = \<lparr> rq_payload = errorPayload t, rq_channel = r_channel r,
                                rq_to = r_to r, rq_sessionKey = sessionKey, rq_cfg = cfg,
                                rq_mirror = False \<rparr>;
                        routedResult = routeReply E (length (sent st)) rq;
                        st1 = st\<lparr> sent := sent st @ [rq] \<rparr>
                    in (True, rr_ok routedResult,
                        if rr_ok routedResult then st1
                        else st1\<lparr> errorLog := errorLog st1 @
                               [''tool warning route failed ('' @ r_channel r @ '':'' @ r_to r
                                @ ''): '' @ (case rr_error routedResult of Some e \<Rightarrow> e
                                             | None \<Rightarrow> ''unknown error'')] \<rparr>))
                 else (False, False, st)
             | None \<Rightarrow> (False, False, st))
      in (if shouldRouteWarningToUserChat policy warning routeAttempted routed
          then Some (errorPayload t) else None, st'))"

fun routedLoop ::
  "RouterEnv \<Rightarrow> OpenClawConfig \<Rightarrow> string option \<Rightarrow> WarningRoutingPolicy \<Rightarrow>
   EmbeddedPiWarningEvent list \<Rightarrow> ReplyPayload list \<Rightarrow> string list \<Rightarrow> RouterState \<Rightarrow>
   ReplyPayload list \<times> RouterState" where
  "routedLoop E cfg sessionKey policy [] userPayloads seenWarnings st = (userPayloads, st)"
| "routedLoop E cfg sessionKey policy (warning # rest) userPayloads seenWarnings st =
     (let t = trim (w_text warning)
      in if t = [] then routedLoop E cfg sessionKey policy rest userPayloads seenWarnings st
         else
           let warningKey = w_fingerprint warning @ '':'' @ t
           in if warningKey \<in> set seenWarnings
              then routedLoop E cfg sessionKey policy rest userPayloads seenWarnings st
              else
                let seen' = warningKey # seenWarnings;
                    now = dateNow E (ticks st);
                    (emit, m') = shouldEmitByFingerprintRateLimit (w_fingerprint warning)
                                   (dedupeWindowMs policy) now (seenAt st);
                    st1 = st\<lparr> seenAt := m', ticks := Suc (ticks st) \<rparr>
                in if \<not> emit
                   then routedLoop E cfg sessionKey policy rest userPayloads seen' st1
                   else
                     let (p, st2) = deliverWarning E cfg sessionKey policy warning t st1
                     in routedLoop E cfg sessionKey policy rest
                          (case p of Some x \<Rightarrow> userPayloads @ [x] | None \<Rightarrow> userPayloads)
                          seen' st2)"

definition processWarningEvents ::
  "RouterEnv \<Rightarrow> EmbeddedPiWarningEvent list \<Rightarrow> OpenClawConfig \<Rightarrow> string option \<Rightarrow>
   RouterState \<Rightarrow> ReplyPayload list \<times> RouterState" where
  "processWarningEvents E warnings cfg sessionKey st =
     (let policy = resolveWarningPolicy E cfg
      in if \<not> enabled policy then
           (if policySuppressToolErrors policy then ([], st)
            else (legacyLoop warnings [] [], st))
         else routedLoop E cfg sessionKey policy warnings [] [] st)"

section \<open>The payload builder\<close>

subsection \<open>SHA-1\<close>

text \<open>
  \<open>crypto.createHash("sha1").update(source).digest("hex")\<close>: the SHA-1 of FIPS 180-4
  over the bytes of the string, printed as lower-case hexadecimal.
\<close>

type_synonym w32 = "32 word"

definition sha1Pad :: "string \<Rightarrow> 8 word list" where
  "sha1Pad s =
     (let bytes = map (\<lambda>c. of_nat (of_char c)) s;
          l = length s;
          zeros = (55 + 64 - l mod 64) mod 64;
          bits = (of_nat (8 * l) :: 64 word)
      in bytes @ [0x80] @ replicate zeros 0
         @ map (\<lambda>i. ucast (drop_bit (8 * (7 - i)) bits)) [0..<8])"

fun sha1Words :: "8 word list \<Rightarrow> w32 list" where
  "sha1Words (a # b # c # d # rest) =
     (push_bit 24 (ucast a) OR push_bit 16 (ucast b) OR push_bit 8 (ucast c) OR ucast d)
       # sha1Words rest"
| "sha1Words _ = []"

fun sha1Blocks :: "nat \<Rightarrow> w32 list \<Rightarrow> w32 list list" where
  "sha1Blocks 0 ws = []"
| "sha1Blocks (Suc n) ws = take 16 ws # sha1Blocks n (drop 16 ws)"

fun sha1Schedule :: "nat \<Rightarrow> w32 list \<Rightarrow> w32 list" where
  "sha1Schedule 0 w = w"
| "sha1Schedule (Suc n) w =
     (let t = length w
      in sha1Schedule n
           (w @ [word_rotl 1 (w ! (t - 3) XOR w ! (t - 8) XOR w ! (t - 14) XOR w ! (t - 16))]))"

definition sha1F :: "nat \<Rightarrow> w32 \<Rightarrow> w32 \<Rightarrow> w32 \<Rightarrow> w32" where
  "sha1F t b c d =
     (if t < 20 then (b AND c) OR (NOT b AND d)
      else if t < 40 then b XOR c XOR d
      else if t < 60 then (b AND c) OR (b AND d) OR (c AND d)
      else b XOR c XOR d)"

definition sha1K :: "nat \<Rightarrow> w32" where
  "sha1K t = (if t < 20 then 0x5A827999 else if t < 40 then 0x6ED9EBA1
              else if t < 60 then 0x8F1BBCDC else 0xCA62C1D6)"

type_synonym sha1State = "w32 \<times> w32 \<times> w32 \<times> w32 \<times> w32"

fun sha1Rounds :: "nat \<Rightarrow> w32 list \<Rightarrow> sha1State \<Rightarrow> sha1State" where
  "sha1Rounds t [] s = s"
| "sha1Rounds t (wt # ws) (a, b, c, d, e) =
     sha1Rounds (Suc t) ws
       (word_rotl 5 a + sha1F t b c d + e + sha1K t + wt, a, word_rotl 30 b, c, d)"

definition sha1Block :: "sha1State \<Rightarrow> w32 list \<Rightarrow> sha1State" where
  "sha1Block h blk =
     (case (h, sha1Rounds 0 (sha1Schedule 64 blk) h) of
        ((h0, h1, h2, h3, h4), (a, b, c, d, e)) \<Rightarrow> (h0 + a, h1 + b, h2 + c, h3 + d, h4 + e))"

definition hexDigit :: "w32 \<Rightarrow> char" where
  "hexDigit x = ''0123456789abcdef'' ! unat (x AND 15)"

definition hexWord :: "w32 \<Rightarrow> string" where
  "hexWord x = map (\<lambda>i. hexDigit (drop_bit (4 * (7 - i)) x)) [0..<8]"

definition sha1Hex :: "string \<Rightarrow> string" where
  "sha1Hex s =
     (let p = sha1Pad s;
          blocks = sha1Blocks (length p div 64) (sha1Words p)
      in case foldl sha1Block (0x67452301, 0xEFCDAB89, 0x98BADCFE, 0x10325476, 0xC3D2E1F0) blocks of
           (h0, h1, h2, h3, h4) \<Rightarrow> hexWord h0 @ hexWord h1 @ hexWord h2 @ hexWord h3 @ hexWord h4)"

subsection \<open>Inputs\<close>

datatype ContentBlock =
  TextBlock string
  | ThinkingBlock string
  | ToolCallBlock string string

text \<open>
  Of an \<open>AssistantMessage\<close> the builder reads the stop reason, the error message and the
  types of the content blocks; a message without \<open>content\<close> has the empty list.
\<close>

record AssistantMessage =
  stopReason :: string
  errorMessage :: "string option"
  content :: "ContentBlock list"

record ToolMetaEntry =
  tm_toolName :: string
  tm_meta :: "string option"

record LastToolError =
  toolName :: string
  meta :: "string option"
  error :: "string option"
  mutatingAction :: "bool option"
  actionFingerprint :: "string option"

record BuildParams =
  assistantTexts :: "string list"
  toolMetas :: "ToolMetaEntry list"
  lastAssistant :: "AssistantMessage option"
  lastToolError :: "LastToolError option"
  config :: "OpenClawConfig option"
  sessionKey :: string
  provider :: "string option"
  model :: "string option"
  verboseLevel :: "string option"
  reasoningLevel :: "string option"
  toolResultFormat :: "string option"
  suppressToolErrorWarnings :: "bool option"
  inlineToolResultsAllowed :: bool

text \<open>What \<open>parseReplyDirectives\<close> returns.\<close>

record ReplyDirectives =
  d_text :: string
  d_mediaUrls :: "string list option"
  d_audioAsVoice :: "bool option"
  d_replyToId :: "string option"
  d_replyToTag :: "bool option"
  d_replyToCurrent :: "bool option"

text \<open>An element of \<open>replyItems\<close>.\<close>

record ReplyItem =
  i_text :: string
  i_media :: "string list option"
  i_isError :: "bool option"
  i_audioAsVoice :: "bool option"
  i_replyToId :: "string option"
  i_replyToTag :: "bool option"
  i_replyToCurrent :: "bool option"

text \<open>
  The functions and constants that \<open>payloads.ts\<close> imports from other modules
  (\<open>pi-embedded-helpers\<close>, \<open>pi-embedded-utils\<close>, \<open>tool-mutation\<close>, \<open>reply-directives\<close>,
  \<open>tokens\<close>, \<open>tool-meta\<close>) are parameters of the builder: every theorem about it holds
  for all of them.
\<close>

record Helpers =
  formatAssistantErrorText ::
    "AssistantMessage \<Rightarrow> OpenClawConfig option \<Rightarrow> string \<Rightarrow> string option \<Rightarrow> string option
     \<Rightarrow> string option"
  formatRawAssistantErrorForUi :: "string \<Rightarrow> string"
  getApiErrorPayloadFingerprint :: "string \<Rightarrow> string option"
  isRawApiErrorPayload :: "string \<Rightarrow> bool"
  normalizeTextForComparison :: "string \<Rightarrow> string"
  BILLING_ERROR_USER_MESSAGE :: string
  extractAssistantText :: "AssistantMessage \<Rightarrow> string"
  extractAssistantThinking :: "AssistantMessage \<Rightarrow> string"
  formatReasoningMessage :: "string \<Rightarrow> string"
  isLikelyMutatingToolName :: "string \<Rightarrow> bool"
  parseReplyDirectives :: "string \<Rightarrow> ReplyDirectives"
  isSilentReplyText :: "string \<Rightarrow> string \<Rightarrow> bool"
  SILENT_REPLY_TOKEN :: string
  formatToolAggregate :: "string \<Rightarrow> string list option \<Rightarrow> bool \<Rightarrow> string"

subsection \<open>Tool warnings\<close>

definition RECOVERABLE_TOOL_ERROR_KEYWORDS :: "string list" where
  "RECOVERABLE_TOOL_ERROR_KEYWORDS =
     [''required'', ''missing'', ''invalid'', ''must be'', ''must have'', ''needs'', ''requires'']"

definition isRecoverableToolError :: "string option \<Rightarrow> bool" where
  "isRecoverableToolError err =
     (let errorLower = toLowerCase (case err of Some e \<Rightarrow> e | None \<Rightarrow> [])
      in list_ex (\<lambda>keyword. str_includes errorLower keyword) RECOVERABLE_TOOL_ERROR_KEYWORDS)"

text \<open>The result is the pair \<open>(shouldEmit, isMutating)\<close>.\<close>

definition shouldEmitToolWarningEvent ::
  "Helpers \<Rightarrow> LastToolError \<Rightarrow> bool \<Rightarrow> bool \<Rightarrow> bool \<times> bool" where
  "shouldEmitToolWarningEvent H lastErr hasUserFacingReply suppress =
     (let normalizedTool = toLowerCase (trim (toolName lastErr));
          isExecLike = (normalizedTool = ''exec'' \<or> normalizedTool = ''bash'');
          isMutating = (case mutatingAction lastErr of
                          Some b \<Rightarrow> b
                        | None \<Rightarrow> isLikelyMutatingToolName H (toolName lastErr))
      in if isMutating \<or> isExecLike then (True, isMutating)
         else if suppress then (False, isMutating)
         else (\<not> hasUserFacingReply \<and> \<not> isRecoverableToolError (error lastErr), isMutating))"

definition buildWarningFingerprint :: "LastToolError \<Rightarrow> string" where
  "buildWarningFingerprint lastErr =
     (let source = (case actionFingerprint lastErr of
                      Some a \<Rightarrow> a
                    | None \<Rightarrow> toolName lastErr @ ''|''
                              @ (case meta lastErr of Some m \<Rightarrow> m | None \<Rightarrow> [])
                              @ ''|'' @ (case error lastErr of Some e \<Rightarrow> e | None \<Rightarrow> []))
      in sha1Hex source)"

subsection \<open>The constants of \<open>buildEmbeddedRunPayloads\<close>\<close>

definition useMarkdown :: "BuildParams \<Rightarrow> bool" where
  "useMarkdown p = (toolResultFormat p = Some ''markdown'')"

definition lastAssistantErrored :: "BuildParams \<Rightarrow> bool" where
  "lastAssistantErrored p =
     (case lastAssistant p of Some la \<Rightarrow> stopReason la = ''error'' | None \<Rightarrow> False)"

definition errorText :: "Helpers \<Rightarrow> BuildParams \<Rightarrow> string option" where
  "errorText H p =
     (case lastAssistant p of
        Some la \<Rightarrow> formatAssistantErrorText H la (config p) (sessionKey p) (provider p) (model p)
      | None \<Rightarrow> None)"

definition rawErrorMessage :: "BuildParams \<Rightarrow> string option" where
  "rawErrorMessage p =
     (if lastAssistantErrored p then
        (case lastAssistant p of
           Some la \<Rightarrow>
             (case errorMessage la of
                Some m \<Rightarrow> if trim m \<noteq> [] then Some (trim m) else None
              | None \<Rightarrow> None)
         | None \<Rightarrow> None)
      else None)"

definition rawErrorFingerprint :: "Helpers \<Rightarrow> BuildParams \<Rightarrow> string option" where
  "rawErrorFingerprint H p =
     (case rawErrorMessage p of
        Some r \<Rightarrow> getApiErrorPayloadFingerprint H r
      | None \<Rightarrow> None)"

definition formattedRawErrorMessage :: "Helpers \<Rightarrow> BuildParams \<Rightarrow> string option" where
  "formattedRawErrorMessage H p =
     (case rawErrorMessage p of
        Some r \<Rightarrow> Some (formatRawAssistantErrorForUi H r)
      | None \<Rightarrow> None)"

definition normalizedFormattedRawErrorMessage :: "Helpers \<Rightarrow> BuildParams \<Rightarrow> string option" where
  "normalizedFormattedRawErrorMessage H p =
     (case formattedRawErrorMessage H p of
        Some f \<Rightarrow> if f \<noteq> [] then Some (normalizeTextForComparison H f) else None
      | None \<Rightarrow> None)"

definition normalizedRawErrorText :: "Helpers \<Rightarrow> BuildParams \<Rightarrow> string option" where
  "normalizedRawErrorText H p =
     (case rawErrorMessage p of
        Some r \<Rightarrow> Some (normalizeTextForComparison H r)
      | None \<Rightarrow> None)"

definition normalizedErrorText :: "Helpers \<Rightarrow> BuildParams \<Rightarrow> string option" where
  "normalizedErrorText H p =
     (case errorText H p of
        Some e \<Rightarrow> if e \<noteq> [] then Some (normalizeTextForComparison H e) else None
      | None \<Rightarrow> None)"

definition normalizedGenericBillingErrorText :: "Helpers \<Rightarrow> string" where
  "normalizedGenericBillingErrorText H = normalizeTextForComparison H (BILLING_ERROR_USER_MESSAGE H)"

definition genericErrorText :: string where
  "genericErrorText = ''The AI service returned an error. Please try again.''"

definition fallbackAnswerText :: "Helpers \<Rightarrow> BuildParams \<Rightarrow> string" where
  "fallbackAnswerText H p =
     (case lastAssistant p of Some la \<Rightarrow> extractAssistantText H la | None \<Rightarrow> [])"

subsection \<open>Raw-error suppression\<close>

definition shouldSuppressRawErrorText :: "Helpers \<Rightarrow> BuildParams \<Rightarrow> string \<Rightarrow> bool" where
  "shouldSuppressRawErrorText H p txt =
     (if \<not> lastAssistantErrored p then False
      else
        let trimmed = trim txt;
            normalized = normalizeTextForComparison H trimmed
        in if trimmed = [] then False
           else if truthy (errorText H p)
                   \<and> (normalized \<noteq> [] \<and> truthy (normalizedErrorText H p)
                        \<and> Some normalized = normalizedErrorText H p
                      \<or> trimmed = genericErrorText
                      \<or> normalized \<noteq> [] \<and> normalizedGenericBillingErrorText H \<noteq> []
                        \<and> normalized = normalizedGenericBillingErrorText H)
                then True
           else if truthy (rawErrorMessage p) \<and> Some trimmed = rawErrorMessage p then True
           else if truthy (formattedRawErrorMessage H p)
                   \<and> Some trimmed = formattedRawErrorMessage H p then True
           else if truthy (normalizedRawErrorText H p)
                   \<and> normalized \<noteq> [] \<and> Some normalized = normalizedRawErrorText H p then True
           else if truthy (normalizedFormattedRawErrorMessage H p)
                   \<and> normalized \<noteq> [] \<and> Some normalized = normalizedFormattedRawErrorMessage H p
                then True
           else if truthy (rawErrorFingerprint H p)
                   \<and> truthy (getApiErrorPayloadFingerprint H trimmed)
                   \<and> getApiErrorPayloadFingerprint H trimmed = rawErrorFingerprint H p
                then True
           else isRawApiErrorPayload H trimmed)"

text \<open>The candidate answer texts: the list that the filter of \<open>answerTexts\<close> runs over.\<close>

definition candidateTexts :: "Helpers \<Rightarrow> BuildParams \<Rightarrow> string list" where
  "candidateTexts H p =
     (if assistantTexts p \<noteq> [] then assistantTexts p
      else if fallbackAnswerText H p \<noteq> [] then [fallbackAnswerText H p]
      else [])"

definition answerTexts :: "Helpers \<Rightarrow> BuildParams \<Rightarrow> string list" where
  "answerTexts H p = filter (\<lambda>txt. \<not> shouldSuppressRawErrorText H p txt) (candidateTexts H p)"

subsection \<open>Reply items\<close>

definition directiveItem :: "ReplyDirectives \<Rightarrow> ReplyItem" where
  "directiveItem d =
     \<lparr> i_text = d_text d, i_media = d_mediaUrls d, i_isError = None,
       i_audioAsVoice = d_audioAsVoice d, i_replyToId = d_replyToId d,
       i_replyToTag = d_replyToTag d, i_replyToCurrent = d_replyToCurrent d \<rparr>"

definition textItem :: "string \<Rightarrow> bool option \<Rightarrow> ReplyItem" where
  "textItem t err =
     \<lparr> i_text = t, i_media = None, i_isError = err, i_audioAsVoice = None,
       i_replyToId = None, i_replyToTag = None, i_replyToCurrent = None \<rparr>"

definition errorItems :: "Helpers \<Rightarrow> BuildParams \<Rightarrow> ReplyItem list" where
  "errorItems H p =
     (case errorText H p of
        Some e \<Rightarrow> if e \<noteq> [] then [textItem e (Some True)] else []
      | None \<Rightarrow> [])"

definition inlineToolResults :: "BuildParams \<Rightarrow> bool" where
  "inlineToolResults p =
     (inlineToolResultsAllowed p \<and> verboseLevel p \<noteq> Some ''off'' \<and> toolMetas p \<noteq> [])"

definition toolItem :: "Helpers \<Rightarrow> BuildParams \<Rightarrow> ToolMetaEntry \<Rightarrow> ReplyItem list" where
  "toolItem H p tm =
     (let agg = formatToolAggregate H (tm_toolName tm)
                  (if truthy (tm_meta tm) then Some [the (tm_meta tm)] else Some [])
                  (useMarkdown p);
          d = parseReplyDirectives H agg
      in if d_text d \<noteq> [] then [directiveItem d] else [])"

definition toolItems :: "Helpers \<Rightarrow> BuildParams \<Rightarrow> ReplyItem list" where
  "toolItems H p = (if inlineToolResults p then concat (map (toolItem H p) (toolMetas p)) else [])"

definition reasoningText :: "Helpers \<Rightarrow> BuildParams \<Rightarrow> string" where
  "reasoningText H p =
     (case lastAssistant p of
        Some la \<Rightarrow>
          if reasoningLevel p = Some ''on''
          then formatReasoningMessage H (extractAssistantThinking H la) else []
      | None \<Rightarrow> [])"

definition reasoningItems :: "Helpers \<Rightarrow> BuildParams \<Rightarrow> ReplyItem list" where
  "reasoningItems H p = (if reasoningText H p \<noteq> [] then [textItem (reasoningText H p) None] else [])"

definition answerItem :: "Helpers \<Rightarrow> string \<Rightarrow> ReplyItem list" where
  "answerItem H txt =
     (let d = parseReplyDirectives H txt
      in if d_text d = [] \<and> (d_mediaUrls d = None \<or> d_mediaUrls d = Some [])
            \<and> d_audioAsVoice d \<noteq> Some True
         then [] else [directiveItem d])"

definition answerItems :: "Helpers \<Rightarrow> BuildParams \<Rightarrow> ReplyItem list" where
  "answerItems H p = concat (map (answerItem H) (answerTexts H p))"

text \<open>\<open>replyItems\<close> as it stands when the tool error is looked at.\<close>

definition replyItems :: "Helpers \<Rightarrow> BuildParams \<Rightarrow> ReplyItem list" where
  "replyItems H p = errorItems H p @ toolItems H p @ reasoningItems H p @ answerItems H p"

subsection \<open>The warning event\<close>

text \<open>The warning sign and its variation selector, U+26A0 U+FE0F, in UTF-8.\<close>

definition warningSign :: string where
  "warningSign = [CHR 0xE2, CHR 0x9A, CHR 0xA0, CHR 0xEF, CHR 0xB8, CHR 0x8F]"

definition isToolCall :: "ContentBlock \<Rightarrow> bool" where
  "isToolCall b = (case b of ToolCallBlock _ _ \<Rightarrow> True | _ \<Rightarrow> False)"

definition hasUserFacingReply :: "Helpers \<Rightarrow> BuildParams \<Rightarrow> bool" where
  "hasUserFacingReply H p =
     (let lastAssistantHasToolCalls =
            (case lastAssistant p of Some la \<Rightarrow> list_ex isToolCall (content la) | None \<Rightarrow> False);
          lastAssistantWasToolUse =
            (case lastAssistant p of Some la \<Rightarrow> stopReason la = ''toolUse'' | None \<Rightarrow> False)
      in replyItems H p \<noteq> [] \<and> \<not> lastAssistantHasToolCalls \<and> \<not> lastAssistantWasToolUse)"

definition toolSummary :: "Helpers \<Rightarrow> BuildParams \<Rightarrow> LastToolError \<Rightarrow> string" where
  "toolSummary H p lastErr =
     formatToolAggregate H (toolName lastErr)
       (if truthy (meta lastErr) then Some [the (meta lastErr)] else None) (useMarkdown p)"

definition warningText :: "Helpers \<Rightarrow> BuildParams \<Rightarrow> LastToolError \<Rightarrow> string" where
  "warningText H p lastErr =
     (let errorSuffix = (if truthy (error lastErr) then '': '' @ the (error lastErr) else [])
      in warningSign @ '' '' @ toolSummary H p lastErr @ '' failed'' @ errorSuffix)"

definition duplicateWarning :: "Helpers \<Rightarrow> BuildParams \<Rightarrow> LastToolError \<Rightarrow> bool" where
  "duplicateWarning H p lastErr =
     (let normalizedWarning = normalizeTextForComparison H (warningText H p lastErr)
      in if normalizedWarning \<noteq> [] then
           list_ex (\<lambda>item.
              if i_text item = [] then False
              else let normalizedExisting = normalizeTextForComparison H (i_text item)
                   in normalizedExisting \<noteq> [] \<and> normalizedExisting = normalizedWarning)
             (replyItems H p)
         else False)"

definition warningItems :: "Helpers \<Rightarrow> int \<Rightarrow> BuildParams \<Rightarrow> EmbeddedPiWarningEvent list" where
  "warningItems H now p =
     (case lastToolError p of
        None \<Rightarrow> []
      | Some lastErr \<Rightarrow>
          (let warningState = shouldEmitToolWarningEvent H lastErr (hasUserFacingReply H p)
                                (case config p of Some c \<Rightarrow> suppressToolErrors c = Some True
                                 | None \<Rightarrow> False)
           in if fst warningState then
                (if \<not> duplicateWarning H p lastErr then
                   [\<lparr> w_kind = ''tool_error'', w_text = warningText H p lastErr,
                      w_toolName = toolName lastErr, w_toolSummary = toolSummary H p lastErr,
                      w_errorText = error lastErr, w_isMutating = snd warningState,
                      w_fingerprint = buildWarningFingerprint lastErr, w_ts = now \<rparr>]
                 else [])
              else []))"

subsection \<open>Payloads\<close>

definition itemPayload :: "bool \<Rightarrow> ReplyItem \<Rightarrow> ReplyPayload" where
  "itemPayload hasAudioAsVoiceTag item =
     \<lparr> p_text = (if trim (i_text item) \<noteq> [] then Some (trim (i_text item)) else None),
       p_mediaUrl = (case i_media item of Some (u # _) \<Rightarrow> Some u | _ \<Rightarrow> None),
       p_mediaUrls = (case i_media item of Some (u # us) \<Rightarrow> Some (u # us) | _ \<Rightarrow> None),
       p_replyToId = i_replyToId item,
       p_isError = i_isError item,
       p_audioAsVoice =
         Some (i_audioAsVoice item = Some True
               \<or> hasAudioAsVoiceTag \<and> (case i_media item of Some (u # _) \<Rightarrow> True | _ \<Rightarrow> False)),
       p_replyToTag = i_replyToTag item,
       p_replyToCurrent = i_replyToCurrent item \<rparr>"

definition keepPayload :: "Helpers \<Rightarrow> ReplyPayload \<Rightarrow> bool" where
  "keepPayload H pl =
     (if \<not> truthy (p_text pl) \<and> \<not> truthy (p_mediaUrl pl)
         \<and> (p_mediaUrls pl = None \<or> p_mediaUrls pl = Some [])
      then False
      else if truthy (p_text pl) \<and> isSilentReplyText H (the (p_text pl)) (SILENT_REPLY_TOKEN H)
      then False
      else True)"

definition hasAudioAsVoiceTag :: "Helpers \<Rightarrow> BuildParams \<Rightarrow> bool" where
  "hasAudioAsVoiceTag H p = list_ex (\<lambda>item. i_audioAsVoice item = Some True) (replyItems H p)"

definition payloads :: "Helpers \<Rightarrow> BuildParams \<Rightarrow> ReplyPayload list" where
  "payloads H p =
     filter (keepPayload H) (map (itemPayload (hasAudioAsVoiceTag H p)) (replyItems H p))"

text \<open>The result is the pair \<open>(payloads, warnings)\<close>; \<open>now\<close> is the reading of \<open>Date.now()\<close>.\<close>

definition buildEmbeddedRunPayloads ::
  "Helpers \<Rightarrow> int \<Rightarrow> BuildParams \<Rightarrow> ReplyPayload list \<times> EmbeddedPiWarningEvent list" where
  "buildEmbeddedRunPayloads H now p = (payloads H p, warningItems H now p)"


section \<open>Sample inputs\<close>

text \<open>
  A concrete environment and configuration on which the theorems below are exercised:
  the environment variable holds \<open>v\<close> (unset when \<open>v\<close> is empty), the clock
  starts at 1000 and advances by \<open>step\<close> milliseconds per reading, every channel but
  \<open>webchat\<close> is routable and every delivery succeeds or fails as \<open>delivers\<close> says.
\<close>

definition sampleEnv :: "string \<Rightarrow> bool \<Rightarrow> int \<Rightarrow> RouterEnv" where
  "sampleEnv v delivers step =
     \<lparr> processEnv = (\<lambda>n. if n = OPENCLAW_TOOL_WARNINGS_ENABLED \<and> v \<noteq> [] then Some v else None),
       dateNow = (\<lambda>n. 1000 + step * int n),
       isRoutableChannel = (\<lambda>c. c \<noteq> [] \<and> c \<noteq> ''webchat''),
       routeReply = (\<lambda>n rq. \<lparr> rr_ok = delivers,
                                  rr_error = (if delivers then None else Some ''timeout'') \<rparr>) \<rparr>"

definition sampleCfg :: "bool option \<Rightarrow> bool \<Rightarrow> bool \<Rightarrow> OpenClawConfig" where
  "sampleCfg en suppress fallback =
     \<lparr> suppressToolErrors = Some suppress, tw_enabled = en, tw_target = Some ''telegram'',
       tw_to = Some ''-1003842428779'', tw_execOnly = None,
       tw_fallbackToUserChat = Some fallback, tw_dedupeWindowMs = Some 60000,
       hb_target = None, hb_to = None \<rparr>"

definition sampleWarning :: "string \<Rightarrow> string \<Rightarrow> EmbeddedPiWarningEvent" where
  "sampleWarning tool fp =
     \<lparr> w_kind = ''tool_error'', w_text = tool @ '' failed: exit code 1'', w_toolName = tool,
       w_toolSummary = tool, w_errorText = Some ''exit code 1'', w_isMutating = False,
       w_fingerprint = fp, w_ts = 0 \<rparr>"

definition emptyState :: RouterState where
  "emptyState = \<lparr> seenAt = [], ticks = 0, sent = [], errorLog = [] \<rparr>"

definition samplePolicy :: "bool \<Rightarrow> bool \<Rightarrow> bool \<Rightarrow> WarningRoutingPolicy" where
  "samplePolicy hasRoute suppress fallback =
     \<lparr> enabled = True,
       route = (if hasRoute then Some \<lparr> r_channel = ''telegram'', r_to = ''-1003842428779'' \<rparr>
                else None),
       execOnly = True, fallbackToUserChat = fallback, dedupeWindowMs = 60000,
       policySuppressToolErrors = suppress \<rparr>"

text \<open>
  \<open>feed k n\<close> is the router's state after \<open>n\<close> calls from an empty cache, routing
  enabled, ten milliseconds apart, the \<open>i\<close>-th call (from 0) with one warning whose
  fingerprint is \<open>k + i\<close> letters \<open>a\<close>: with \<open>k = 0\<close> the first fingerprint is the
  empty string.
\<close>

fun feed :: "nat \<Rightarrow> nat \<Rightarrow> RouterState" where
  "feed k 0 = emptyState"
| "feed k (Suc n) =
     snd (processWarningEvents (sampleEnv [] True 10)
            [sampleWarning ''exec'' (replicate (k + n) CHR ''a'')]
            (sampleCfg (Some True) False False) None (feed k n))"

definition sampleRequest :: "OpenClawConfig \<Rightarrow> RouteRequest" where
  "sampleRequest cfg =
     \<lparr> rq_payload = errorPayload ''exec failed: exit code 1'', rq_channel = ''telegram'',
       rq_to = ''-1003842428779'', rq_sessionKey = None, rq_cfg = cfg, rq_mirror = False \<rparr>"

text \<open>\<open>s\<close> between double quotes.\<close>

definition quoted :: "string \<Rightarrow> string" where
  "quoted s = CHR 0x22 # s @ [CHR 0x22]"

text \<open>
  Modelled from the spec: \<open>isRawApiErrorPayload\<close> of \<open>pi-embedded-helpers\<close>, whose code
  is missing. A raw provider error payload is an object with \<open>type\<close>, \<open>error\<close> and
  request-id fields; here, a text in braces that has a \<open>"type"\<close> and an \<open>"error"\<close> key.
\<close>

definition sampleIsRaw :: "string \<Rightarrow> bool" where
  "sampleIsRaw s =
     (s \<noteq> [] \<and> hd s = CHR ''{'' \<and> last s = CHR ''}''
      \<and> str_includes s (quoted ''type'') \<and> str_includes s (quoted ''error''))"

text \<open>
  Modelled from the spec: \<open>normalizeTextForComparison\<close> of \<open>pi-embedded-helpers\<close>, whose
  code is missing. The comparison is insensitive to white space and case.
\<close>

definition sampleNormalize :: "string \<Rightarrow> string" where
  "sampleNormalize s = toLowerCase (filter (\<lambda>c. \<not> isWhiteSpace c) s)"

definition overloadedText :: string where
  "overloadedText = ''The AI service is temporarily overloaded. Please try again in a moment.''"

text \<open>
  Modelled from the spec: the functions and constants that \<open>payloads.ts\<close> imports from
  \<open>pi-embedded-helpers\<close>, \<open>pi-embedded-utils\<close>, \<open>tool-mutation\<close>, \<open>reply-directives\<close>,
  \<open>tokens\<close> and \<open>tool-meta\<close>, whose code is missing. \<open>sampleHelpers\<close> is one instance
  of them, used only to run the builder on concrete turns: the friendly message of an
  errored turn is the overload sentence; the fingerprint of a raw error payload is its
  text without white space; a tool is summarised by its name and meta; \<open>write\<close>,
  \<open>edit\<close>, \<open>message\<close> and \<open>session_status\<close> are mutating tool names; texts carry no
  reply directives; the silent reply token is \<open>NO_REPLY\<close>.
\<close>

definition sampleHelpers :: Helpers where
  "sampleHelpers =
     \<lparr> formatAssistantErrorText =
         (\<lambda>la cfg sk prov mdl. if stopReason la = ''error'' then Some overloadedText else None),
       formatRawAssistantErrorForUi = (\<lambda>raw. ''HTTP error: '' @ raw),
       getApiErrorPayloadFingerprint =
         (\<lambda>raw. if sampleIsRaw raw then Some (filter (\<lambda>c. \<not> isWhiteSpace c) raw) else None),
       isRawApiErrorPayload = sampleIsRaw,
       normalizeTextForComparison = sampleNormalize,
       BILLING_ERROR_USER_MESSAGE = ''API provider returned a billing error.'',
       extractAssistantText =
         (\<lambda>la. trim (concat (map (\<lambda>b. case b of TextBlock t \<Rightarrow> t | _ \<Rightarrow> []) (content la)))),
       extractAssistantThinking =
         (\<lambda>la. concat (map (\<lambda>b. case b of ThinkingBlock t \<Rightarrow> t | _ \<Rightarrow> []) (content la))),
       formatReasoningMessage = (\<lambda>t. if trim t = [] then [] else ''Reasoning: '' @ trim t),
       isLikelyMutatingToolName =
         (\<lambda>n. toLowerCase (trim n) \<in> set [''write'', ''edit'', ''message'', ''session_status'']),
       parseReplyDirectives =
         (\<lambda>t. \<lparr> d_text = trim t, d_mediaUrls = None, d_audioAsVoice = None, d_replyToId = None,
                 d_replyToTag = None, d_replyToCurrent = None \<rparr>),
       isSilentReplyText = (\<lambda>t token. trim t = token),
       SILENT_REPLY_TOKEN = ''NO_REPLY'',
       formatToolAggregate =
         (\<lambda>name metas markdown. name @ (case metas of Some (m # _) \<Rightarrow> '': '' @ m | _ \<Rightarrow> [])) \<rparr>"

text \<open>A raw provider error payload, compact and pretty-printed.\<close>

definition errorJson :: string where
  "errorJson =
     ''{'' @ quoted ''type'' @ '':'' @ quoted ''error'' @ '','' @ quoted ''error'' @ '':{''
     @ quoted ''type'' @ '':'' @ quoted ''overloaded_error'' @ '','' @ quoted ''message'' @ '':''
     @ quoted ''Overloaded'' @ ''},'' @ quoted ''request_id'' @ '':'' @ quoted ''req_011'' @ ''}''"

definition errorJsonPretty :: string where
  "errorJsonPretty =
     ''{'' @ [CHR 0x0A] @ ''  '' @ quoted ''type'' @ '': '' @ quoted ''error'' @ '','' @ [CHR 0x0A]
     @ ''  '' @ quoted ''error'' @ '': {'' @ [CHR 0x0A]
     @ ''    '' @ quoted ''type'' @ '': '' @ quoted ''overloaded_error'' @ '','' @ [CHR 0x0A]
     @ ''    '' @ quoted ''message'' @ '': '' @ quoted ''Overloaded'' @ [CHR 0x0A]
     @ ''  },'' @ [CHR 0x0A]
     @ ''  '' @ quoted ''request_id'' @ '': '' @ quoted ''req_011'' @ [CHR 0x0A] @ ''}''"

definition sampleAssistant :: "string \<Rightarrow> string option \<Rightarrow> ContentBlock list \<Rightarrow> AssistantMessage" where
  "sampleAssistant stop err blocks = \<lparr> stopReason = stop, errorMessage = err, content = blocks \<rparr>"

definition sampleParams ::
  "string list \<Rightarrow> AssistantMessage option \<Rightarrow> LastToolError option \<Rightarrow> bool \<Rightarrow> BuildParams" where
  "sampleParams texts la lastErr suppress =
     \<lparr> assistantTexts = texts, toolMetas = [], lastAssistant = la, lastToolError = lastErr,
       config = Some (sampleCfg None suppress True), sessionKey = ''session:telegram'',
       provider = None, model = None, verboseLevel = Some ''off'', reasoningLevel = Some ''off'',
       toolResultFormat = Some ''plain'', suppressToolErrorWarnings = None,
       inlineToolResultsAllowed = False \<rparr>"

definition sampleToolError :: "string \<Rightarrow> string \<Rightarrow> bool option \<Rightarrow> LastToolError" where
  "sampleToolError tool err mut =
     \<lparr> toolName = tool, meta = None, error = Some err, mutatingAction = mut,
       actionFingerprint = None \<rparr>"

section \<open>Policy resolution: the environment override\<close>

lemmas str_eval = trim_def toLowerCase_def lowerChar_def isWhiteSpace_def



section \<open>The rate limiter and the cache\<close>

lemma deliverWarning_attempt:
  "deliverWarning E cfg sk policy w t st = (p, st') \<Longrightarrow>
   sent st' = (if shouldRouteWarningToWarningsChannel w policy
               then sent st @ [\<lparr> rq_payload = errorPayload t, rq_channel = r_channel (the (route policy)),
                                  rq_to = r_to (the (route policy)), rq_sessionKey = sk, rq_cfg = cfg,
                                  rq_mirror = False \<rparr>]
               else sent st)
   \<and> seenAt st' = seenAt st \<and> ticks st' = ticks st"
  by (auto simp: deliverWarning_def Let_def shouldRouteWarningToWarningsChannel_def split: option.splits if_splits)

lemma insort_key_append_last:
  "f a \<le> f x \<Longrightarrow> insort_key f a (ys @ [x]) = insort_key f a ys @ [x]"
  by (induction ys) auto

lemma sort_key_append_last:
  "\<forall>y\<in>set xs. f y \<le> f x \<Longrightarrow> sort_key f (xs @ [x]) = sort_key f xs @ [x]"
  by (induction xs) (auto simp: insort_key_append_last)

lemma update_new: "k \<notin> fst ` set m \<Longrightarrow> AList.update k v m = m @ [(k, v)]"
  by (induction m) auto

lemma map_of_evictKey: "fst e \<noteq> k \<Longrightarrow> map_of (evictKey m e) k = map_of m k"
  by (simp add: evictKey_def delete_conv')

lemma map_of_foldl_evict:
  "k \<notin> fst ` set es \<Longrightarrow> map_of (foldl evictKey m es) k = map_of m k"
  by (induction es arbitrary: m) (auto simp: map_of_evictKey)

lemma set_evictKey: "set (evictKey m e) \<subseteq> set m"
  by (auto simp: evictKey_def AList.delete_eq)

lemma set_foldl_evict: "set (foldl evictKey m es) \<subseteq> set m"
proof (induction es arbitrary: m)
  case Nil
  show ?case by simp
next
  case (Cons e es)
  have "set (foldl evictKey (evictKey m e) es) \<subseteq> set (evictKey m e)" by (rule Cons.IH)
  also have "\<dots> \<subseteq> set m" by (rule set_evictKey)
  finally show ?case by simp
qed

lemma map_of_sweepCache:
  "\<forall>e\<in>set es. fst e = k \<longrightarrow> \<not> now - snd e > DEFAULT_WARNING_DEDUPE_WINDOW_MS * 6 \<Longrightarrow>
   map_of (sweepCache now es m) k = map_of m k"
proof (induction es arbitrary: m)
  case Nil
  show ?case by simp
next
  case (Cons e es)
  obtain key ts where e: "e = (key, ts)" by (cases e)
  show ?case using Cons unfolding e
    by (auto simp: Let_def delete_conv')
qed

lemma prune_small:
  "length m \<le> WARNING_FINGERPRINT_CACHE_LIMIT \<Longrightarrow> pruneWarningFingerprintCache now m = m"
  by (simp add: pruneWarningFingerprintCache_def)

lemma length_update_old: "k \<in> fst ` set m \<Longrightarrow> length (AList.update k v m) = length m"
  by (induction m) auto

lemma map_of_append_new: "k \<notin> fst ` set m \<Longrightarrow> map_of (m @ [(k, v)]) k = Some v"
  by (induction m) auto

lemma prune_keeps_new:
  assumes mono: "\<forall>e\<in>set m. snd e \<le> now" and new: "k \<notin> fst ` set m"
  shows "map_of (pruneWarningFingerprintCache now (m @ [(k, now)])) k = Some now"
proof (cases "length (m @ [(k, now)]) \<le> WARNING_FINGERPRINT_CACHE_LIMIT")
  case True
  then show ?thesis using map_of_append_new [OF new]
    by (simp add: pruneWarningFingerprintCache_def del: map_of_append)
next
  case False
  let ?c = "m @ [(k, now)]"
  let ?ex = "length ?c - WARNING_FINGERPRINT_CACHE_LIMIT"
  let ?m1 = "foldl evictKey ?c (take ?ex (sort_key snd ?c))"
  have srt: "sort_key snd ?c = sort_key snd m @ [(k, now)]"
    using mono by (intro sort_key_append_last) auto
  have "?ex \<le> length m" by (simp add: WARNING_FINGERPRINT_CACHE_LIMIT_def)
  then have tk: "take ?ex (sort_key snd ?c) = take ?ex (sort_key snd m)"
    by (simp add: srt)
  have "set (take ?ex (sort_key snd m)) \<subseteq> set m"
    using set_take_subset [of ?ex "sort_key snd m"] by simp
  then have notin: "k \<notin> fst ` set (take ?ex (sort_key snd ?c))"
    using new unfolding tk by auto
  have c: "map_of ?c k = Some now" by (rule map_of_append_new [OF new])
  have m1: "map_of ?m1 k = Some now"
    using map_of_foldl_evict [OF notin] c by simp
  have "set ?m1 \<subseteq> set ?c" by (rule set_foldl_evict)
  then have "\<forall>e\<in>set ?m1. fst e = k \<longrightarrow> snd e = now"
    using new by (auto simp: image_iff)
  then have "\<forall>e\<in>set ?m1. fst e = k \<longrightarrow> \<not> now - snd e > DEFAULT_WARNING_DEDUPE_WINDOW_MS * 6"
    by (auto simp: DEFAULT_WARNING_DEDUPE_WINDOW_MS_def)
  then have sw: "map_of (sweepCache now ?m1 ?m1) k = Some now"
    using map_of_sweepCache [of ?m1 k now ?m1] m1 by simp
  show ?thesis using False m1 sw
    by (simp add: pruneWarningFingerprintCache_def Let_def)
qed

lemma rate_limit_records:
  assumes mono: "\<forall>e\<in>set m. snd e \<le> now"
    and bounded: "k \<in> fst ` set m \<longrightarrow> length m \<le> WARNING_FINGERPRINT_CACHE_LIMIT"
    and pass: "fst (shouldEmitByFingerprintRateLimit k w now m)"
  shows "map_of (snd (shouldEmitByFingerprintRateLimit k w now m)) k = Some now"
    and "snd (shouldEmitByFingerprintRateLimit k w now m)
         = pruneWarningFingerprintCache now (AList.update k now m)"
proof -
  show eq: "snd (shouldEmitByFingerprintRateLimit k w now m)
         = pruneWarningFingerprintCache now (AList.update k now m)"
    using pass by (auto simp: shouldEmitByFingerprintRateLimit_def split: option.splits if_splits)
  show "map_of (snd (shouldEmitByFingerprintRateLimit k w now m)) k = Some now"
  proof (cases "k \<in> fst ` set m")
    case True
    then have "length (AList.update k now m) \<le> WARNING_FINGERPRINT_CACHE_LIMIT"
      using bounded by (simp add: length_update_old)
    then show ?thesis unfolding eq by (simp add: prune_small update_conv')
  next
    case False
    then show ?thesis unfolding eq using prune_keeps_new [OF mono False]
      by (simp add: update_new)
  qed
qed

lemma rate_limit_skip:
  "map_of m k = Some t1 \<Longrightarrow> now - t1 < w \<Longrightarrow> shouldEmitByFingerprintRateLimit k w now m = (False, m)"
  by (simp add: shouldEmitByFingerprintRateLimit_def)

lemma rate_limit_pass:
  "map_of m k = Some t1 \<Longrightarrow> \<not> now - t1 < w \<Longrightarrow>
   shouldEmitByFingerprintRateLimit k w now m
     = (True, pruneWarningFingerprintCache now (AList.update k now m))"
  by (simp add: shouldEmitByFingerprintRateLimit_def)

lemma process_first:
  assumes "enabled (resolveWarningPolicy E cfg)"
  shows "processWarningEvents E ws cfg sk st =
           routedLoop E cfg sk (resolveWarningPolicy E cfg) ws [] [] st"
  using assms by (simp add: processWarningEvents_def Let_def)

lemma routedLoop_step:
  assumes "trim (w_text w) \<noteq> []" "w_fingerprint w @ '':'' @ trim (w_text w) \<notin> set seen"
  shows "routedLoop E cfg sk policy (w # rest) ups seen st =
     (let (emit, m') = shouldEmitByFingerprintRateLimit (w_fingerprint w) (dedupeWindowMs policy)
                          (dateNow E (ticks st)) (seenAt st);
          st1 = st\<lparr> seenAt := m', ticks := Suc (ticks st) \<rparr>;
          seen' = (w_fingerprint w @ '':'' @ trim (w_text w)) # seen
      in if \<not> emit then routedLoop E cfg sk policy rest ups seen' st1
         else let (p, st2) = deliverWarning E cfg sk policy w (trim (w_text w)) st1
              in routedLoop E cfg sk policy rest
                   (case p of Some x \<Rightarrow> ups @ [x] | None \<Rightarrow> ups) seen' st2)"
  using assms by (simp add: Let_def split: prod.splits)

lemma process_single:
  assumes "enabled (resolveWarningPolicy E cfg)" "trim (w_text w) \<noteq> []"
  shows "processWarningEvents E [w] cfg sk st =
     (let policy = resolveWarningPolicy E cfg;
          (emit, m') = shouldEmitByFingerprintRateLimit (w_fingerprint w) (dedupeWindowMs policy)
                          (dateNow E (ticks st)) (seenAt st);
          st1 = st\<lparr> seenAt := m', ticks := Suc (ticks st) \<rparr>
      in if \<not> emit then ([], st1)
         else let (p, st2) = deliverWarning E cfg sk policy w (trim (w_text w)) st1
              in (case p of Some x \<Rightarrow> [x] | None \<Rightarrow> [], st2))"
  using assms by (simp add: processWarningEvents_def Let_def split: prod.splits option.splits)

section \<open>The cache limit\<close>

lemma sample_enabled [simp]: "enabled (resolveWarningPolicy (sampleEnv [] d s) (sampleCfg (Some True) a b))"
  by (simp add: resolveWarningPolicy_def parseOptionalBoolEnv_def sampleEnv_def sampleCfg_def)

lemma sample_text [simp]: "trim (w_text (sampleWarning ''exec'' fp)) = ''exec failed: exit code 1''"
  by (simp add: sampleWarning_def str_eval)

lemma feed_step:
  assumes m: "seenAt (feed k n) = m" and t: "ticks (feed k n) = n"
    and new: "replicate (k + n) CHR ''a'' \<notin> fst ` set m"
  shows "seenAt (feed k (Suc n)) =
           pruneWarningFingerprintCache (1000 + 10 * int n)
             (m @ [(replicate (k + n) CHR ''a'', 1000 + 10 * int n)])
         \<and> ticks (feed k (Suc n)) = Suc n"
proof -
  let ?E = "sampleEnv [] True 10" and ?cfg = "sampleCfg (Some True) False False"
  let ?fp = "replicate (k + n) CHR ''a''"
  let ?w = "sampleWarning ''exec'' ?fp"
  let ?now = "1000 + 10 * int n"
  let ?c = "pruneWarningFingerprintCache ?now (m @ [(?fp, ?now)])"
  have none: "map_of m ?fp = None"
    using new by (simp add: map_of_eq_None_iff)
  have now: "dateNow ?E n = ?now" by (simp add: sampleEnv_def)
  have fpw: "w_fingerprint ?w = ?fp" by (simp add: sampleWarning_def)
  have lim: "shouldEmitByFingerprintRateLimit ?fp w ?now m = (True, ?c)" for w
    using none by (simp add: shouldEmitByFingerprintRateLimit_def update_new [OF new])
  obtain p st2 where d: "deliverWarning ?E ?cfg None (resolveWarningPolicy ?E ?cfg) ?w
      ''exec failed: exit code 1'' ((feed k n)\<lparr> seenAt := ?c, ticks := Suc n \<rparr>) = (p, st2)"
    by (cases "deliverWarning ?E ?cfg None (resolveWarningPolicy ?E ?cfg) ?w
      ''exec failed: exit code 1'' ((feed k n)\<lparr> seenAt := ?c, ticks := Suc n \<rparr>)")
  have "feed k (Suc n) = st2"
    using d by (simp add: process_single m t now fpw lim Let_def)
  then show ?thesis using deliverWarning_attempt [OF d] by simp
qed

lemma fresh_key:
  "replicate (k + n) CHR ''a'' \<notin> fst ` set (map (\<lambda>i. (replicate (k + i) CHR ''a'', f i)) [j..<n])"
  by (auto simp: image_iff dest!: arg_cong [where f = length])

lemma feed_cache:
  "n \<le> WARNING_FINGERPRINT_CACHE_LIMIT \<Longrightarrow>
   seenAt (feed k n) = map (\<lambda>i. (replicate (k + i) CHR ''a'', 1000 + 10 * int i)) [0..<n]
     \<and> ticks (feed k n) = n"
proof (induction n)
  case 0
  show ?case by (simp add: emptyState_def)
next
  case (Suc n)
  then have IH:
    "seenAt (feed k n) = map (\<lambda>i. (replicate (k + i) CHR ''a'', 1000 + 10 * int i)) [0..<n]"
    "ticks (feed k n) = n" by simp_all
  show ?case
    using feed_step [OF IH fresh_key] Suc.prems by (simp add: prune_small)
qed



lemma prune_evicts_oldest:
  assumes len: "length c = Suc WARNING_FINGERPRINT_CACHE_LIMIT"
    and srt: "sorted (map snd c)" and hd: "fst (hd c) \<noteq> []"
    and dist: "distinct (map fst c)"
  shows "pruneWarningFingerprintCache now c = tl c"
proof -
  from len obtain e es where c: "c = e # es" by (cases c) auto
  have s: "sort_key snd c = c" using srt by (rule sort_key_id_if_sorted)
  have ex: "length c - WARNING_FINGERPRINT_CACHE_LIMIT = Suc 0" using len by simp
  have "fst e \<notin> fst ` set es" using dist by (simp add: c)
  then have "AList.delete (fst e) es = es"
    by (simp add: delete_id)
  then have ev: "foldl evictKey c (take (Suc 0) c) = es"
    using hd by (cases e) (simp add: c evictKey_def)
  show ?thesis
    unfolding pruneWarningFingerprintCache_def Let_def s ex ev
    using len by (simp add: c)
qed


text \<open>
  With fingerprints that are not empty, the same 1025 calls evict the first entry: the
  state after them no longer knows the first fingerprint.
\<close>

lemma feed_evicted:
  "seenAt (feed 1 1025) = map (\<lambda>i. (replicate (1 + i) CHR ''a'', 1000 + 10 * int i)) [1..<1025]
   \<and> ticks (feed 1 1025) = 1025"
proof -
  define N :: nat where "N = 1024"
  let ?g = "\<lambda>i. (replicate (1 + i) CHR ''a'', 1000 + 10 * int i)"
  let ?c = "map ?g [0..<N] @ [?g N]"
  have N: "N = WARNING_FINGERPRINT_CACHE_LIMIT"
    by (simp add: N_def WARNING_FINGERPRINT_CACHE_LIMIT_def)
  have st: "seenAt (feed 1 N) = map ?g [0..<N]" "ticks (feed 1 N) = N"
    using feed_cache [of N 1] N by simp_all
  have c: "?c = map ?g [0..<Suc N]" by simp
  have len: "length ?c = Suc WARNING_FINGERPRINT_CACHE_LIMIT" by (simp add: N)
  have srt: "sorted (map snd ?c)"
    unfolding c by (simp add: sorted_map sorted_wrt_iff_nth_less del: upt_Suc)
  have "0 < Suc N" by simp
  then have u: "[0..<Suc N] = 0 # [Suc 0..<Suc N]" by (rule upt_conv_Cons)
  have hd: "fst (hd ?c) \<noteq> []" unfolding c u by simp
  have "inj_on (\<lambda>i. replicate (1 + i) CHR ''a'') (set [0..<Suc N])"
    by (auto simp: inj_on_def dest!: arg_cong [where f = length])
  then have dist: "distinct (map fst ?c)"
    unfolding c by (simp add: distinct_map comp_def del: upt_Suc)
  have "seenAt (feed 1 (Suc N)) = tl ?c \<and> ticks (feed 1 (Suc N)) = Suc N"
    using feed_step [OF st fresh_key] prune_evicts_oldest [OF len srt hd dist] by simp
  moreover have "tl ?c = map ?g [Suc 0..<Suc N]" unfolding c u by simp
  moreover have "Suc N = 1025" by (simp add: N_def)
  ultimately show ?thesis by simp
qed

section \<open>The user-chat fallback\<close>

text \<open>
  C4. In the routed path, for a warning that has passed the rate limiter, the decision to
  put it in the user's chat is: never when \<open>suppressToolErrors\<close> is on; otherwise
  always when the warning is not eligible for the dedicated route; when it is eligible
  and no delivery was attempted, \<open>fallbackToUserChat\<close>; when the delivery succeeded,
  never; when the delivery failed, \<open>fallbackToUserChat\<close>. The loop body
  \<open>deliverWarning\<close> returns a payload exactly when that decision, taken on the
  attempt it made and the answer of \<open>routeReply\<close>, is true.
\<close>

theorem user_chat_fallback_decision:
  "(policySuppressToolErrors policy \<longrightarrow> \<not> shouldRouteWarningToUserChat policy w a s)
   \<and> (\<not> policySuppressToolErrors policy \<and> \<not> shouldRouteWarningToWarningsChannel w policy
        \<longrightarrow> shouldRouteWarningToUserChat policy w a s)
   \<and> (\<not> policySuppressToolErrors policy \<and> shouldRouteWarningToWarningsChannel w policy \<and> \<not> a
        \<longrightarrow> shouldRouteWarningToUserChat policy w a s = fallbackToUserChat policy)
   \<and> (\<not> policySuppressToolErrors policy \<and> shouldRouteWarningToWarningsChannel w policy \<and> a \<and> s
        \<longrightarrow> \<not> shouldRouteWarningToUserChat policy w a s)
   \<and> (\<not> policySuppressToolErrors policy \<and> shouldRouteWarningToWarningsChannel w policy \<and> a \<and> \<not> s
        \<longrightarrow> shouldRouteWarningToUserChat policy w a s = fallbackToUserChat policy)
   \<and> fst (deliverWarning E cfg sk policy w t st) =
       (if shouldRouteWarningToUserChat policy w
             (shouldRouteWarningToWarningsChannel w policy)
             (shouldRouteWarningToWarningsChannel w policy
              \<and> rr_ok (routeReply E (length (sent st))
                   \<lparr> rq_payload = errorPayload t, rq_channel = r_channel (the (route policy)),
                     rq_to = r_to (the (route policy)), rq_sessionKey = sk, rq_cfg = cfg,
                     rq_mirror = False \<rparr>))
        then Some (errorPayload t) else None)"
  by (auto simp: shouldRouteWarningToUserChat_def deliverWarning_def Let_def
      shouldRouteWarningToWarningsChannel_def split: option.splits)

theorem user_chat_fallback_decision_witness:
  "\<not> shouldRouteWarningToUserChat (samplePolicy True True True) (sampleWarning ''exec'' ''abc123'') True False
   \<and> shouldRouteWarningToUserChat (samplePolicy False False False) (sampleWarning ''exec'' ''abc123'') False False
   \<and> shouldRouteWarningToUserChat (samplePolicy True False True) (sampleWarning ''exec'' ''abc123'') False False
   \<and> \<not> shouldRouteWarningToUserChat (samplePolicy True False True) (sampleWarning ''exec'' ''abc123'') True True
   \<and> \<not> shouldRouteWarningToUserChat (samplePolicy True False False) (sampleWarning ''exec'' ''abc123'') True False
   \<and> fst (deliverWarning (sampleEnv [] False 500) (sampleCfg (Some True) False True) None
        (samplePolicy True False True) (sampleWarning ''exec'' ''abc123'') ''exec failed'' emptyState)
      = Some (errorPayload ''exec failed'')"
  using user_chat_fallback_decision [of "samplePolicy True True True" "sampleWarning ''exec'' ''abc123''" True False]
   user_chat_fallback_decision [of "samplePolicy False False False" "sampleWarning ''exec'' ''abc123''" False False]
   user_chat_fallback_decision [of "samplePolicy True False True" "sampleWarning ''exec'' ''abc123''" False False]
   user_chat_fallback_decision [of "samplePolicy True False True" "sampleWarning ''exec'' ''abc123''" True True]
   user_chat_fallback_decision [of "samplePolicy True False False" "sampleWarning ''exec'' ''abc123''" True False]
   user_chat_fallback_decision [of "samplePolicy True False True" "sampleWarning ''exec'' ''abc123''" True False
      "sampleEnv [] False 500" "sampleCfg (Some True) False True" None "''exec failed''" emptyState]
  by (simp add: samplePolicy_def sampleWarning_def shouldRouteWarningToWarningsChannel_def
      isExecLikeWarning_def str_eval sampleEnv_def emptyState_def)

section \<open>The dedupe window and suppression\<close>

lemma length_update_le: "length (AList.update k v m) \<le> Suc (length m)"
  by (induction m) auto

lemma set_update_cases: "e \<in> set (AList.update k v m) \<Longrightarrow> e = (k, v) \<or> e \<in> set m"
  by (induction m) (auto split: if_splits)

lemma length_delete_le: "length (AList.delete k m) \<le> length m"
  by (simp add: AList.delete_eq)

lemma length_delete_less: "k \<in> fst ` set m \<Longrightarrow> length (AList.delete k m) < length m"
proof (induction m)
  case Nil
  then show ?case by simp
next
  case (Cons e m)
  show ?case
  proof (cases "fst e = k")
    case True
    then show ?thesis
      using length_delete_le [of k m] by (cases e) simp
  next
    case False
    with Cons.prems have "k \<in> fst ` set m" by auto
    then have "length (AList.delete k m) < length m" by (rule Cons.IH)
    then show ?thesis using False by (cases e) simp
  qed
qed

lemma prune_bounded:
  assumes len: "length c \<le> Suc WARNING_FINGERPRINT_CACHE_LIMIT"
    and keys: "\<forall>e\<in>set c. fst e \<noteq> []"
  shows "length (pruneWarningFingerprintCache now c) \<le> WARNING_FINGERPRINT_CACHE_LIMIT"
proof (cases "length c \<le> WARNING_FINGERPRINT_CACHE_LIMIT")
  case True
  then show ?thesis by (simp add: prune_small)
next
  case False
  with len have l: "length c = Suc WARNING_FINGERPRINT_CACHE_LIMIT" by simp
  then have ex: "length c - WARNING_FINGERPRINT_CACHE_LIMIT = Suc 0" by simp
  from l have "length (sort_key snd c) = Suc WARNING_FINGERPRINT_CACHE_LIMIT" by simp
  then obtain x xs where s: "sort_key snd c = x # xs" by (cases "sort_key snd c") auto
  have "x \<in> set (sort_key snd c)" by (simp add: s)
  then have x: "x \<in> set c" by simp
  then have "fst x \<noteq> []" using keys by blast
  then have ev: "foldl evictKey c (take (Suc 0) (sort_key snd c)) = AList.delete (fst x) c"
    by (simp add: s evictKey_def)
  have "length (AList.delete (fst x) c) < length c"
    using x by (intro length_delete_less) auto
  then have "length (AList.delete (fst x) c) \<le> WARNING_FINGERPRINT_CACHE_LIMIT"
    using l by simp
  then show ?thesis
    using False unfolding pruneWarningFingerprintCache_def Let_def ex ev by simp
qed

lemma rate_limit_bounded:
  assumes len: "length m \<le> WARNING_FINGERPRINT_CACHE_LIMIT"
    and k: "k \<noteq> []" and keys: "\<forall>e\<in>set m. fst e \<noteq> []"
  shows "length (snd (shouldEmitByFingerprintRateLimit k w now m)) \<le> WARNING_FINGERPRINT_CACHE_LIMIT"
proof -
  have "length (AList.update k now m) \<le> Suc WARNING_FINGERPRINT_CACHE_LIMIT"
    using length_update_le [of k now m] len by simp
  moreover have "\<forall>e\<in>set (AList.update k now m). fst e \<noteq> []"
    using k keys by (auto dest: set_update_cases)
  ultimately have "length (pruneWarningFingerprintCache now (AList.update k now m))
      \<le> WARNING_FINGERPRINT_CACHE_LIMIT"
    by (rule prune_bounded)
  then show ?thesis using len
    by (simp add: shouldEmitByFingerprintRateLimit_def split: option.splits)
qed

text \<open>
  C3, as amended. Routing enabled, a warning with a non-empty text. A call with that
  warning alone that passes the rate limiter, on a cache within its limit and a clock
  not behind the cached timestamps, leaves the time it read as the timestamp of the
  fingerprint. Wherever the loop of a later call reaches a warning with that fingerprint
  (not a repetition within the call) while the cache still holds a timestamp \<open>t1\<close> for
  it: less than \<open>dedupeWindowMs\<close> after \<open>t1\<close> the warning is skipped and nothing changes
  but the clock reading (no delivery, no payload, no new timestamp); otherwise the new
  time is recorded and the warning goes on to the delivery attempt and the fallback
  decision.
\<close>

theorem dedupe_window:
  assumes en: "enabled (resolveWarningPolicy E cfg)"
    and tx: "trim (w_text w) \<noteq> []"
  shows "(length (seenAt st0) \<le> WARNING_FINGERPRINT_CACHE_LIMIT
          \<and> (\<forall>e\<in>set (seenAt st0). snd e \<le> dateNow E (ticks st0))
          \<and> fst (shouldEmitByFingerprintRateLimit (w_fingerprint w)
                   (dedupeWindowMs (resolveWarningPolicy E cfg)) (dateNow E (ticks st0)) (seenAt st0))
        \<longrightarrow> map_of (seenAt (snd (processWarningEvents E [w] cfg sk st0))) (w_fingerprint w)
              = Some (dateNow E (ticks st0)))
    \<and> (w_fingerprint w @ '':'' @ trim (w_text w) \<notin> set seen
          \<and> map_of (seenAt st) (w_fingerprint w) = Some t1
          \<and> dateNow E (ticks st) - t1 < dedupeWindowMs (resolveWarningPolicy E cfg)
        \<longrightarrow> routedLoop E cfg sk (resolveWarningPolicy E cfg) (w # rest) ups seen st
              = routedLoop E cfg sk (resolveWarningPolicy E cfg) rest ups
                  ((w_fingerprint w @ '':'' @ trim (w_text w)) # seen)
                  (st\<lparr> ticks := Suc (ticks st) \<rparr>))
    \<and> (w_fingerprint w @ '':'' @ trim (w_text w) \<notin> set seen
          \<and> map_of (seenAt st) (w_fingerprint w) = Some t1
          \<and> \<not> dateNow E (ticks st) - t1 < dedupeWindowMs (resolveWarningPolicy E cfg)
        \<longrightarrow> routedLoop E cfg sk (resolveWarningPolicy E cfg) (w # rest) ups seen st
              = (let (p, st2) = deliverWarning E cfg sk (resolveWarningPolicy E cfg) w (trim (w_text w))
                     (st\<lparr> seenAt := pruneWarningFingerprintCache (dateNow E (ticks st))
                                       (AList.update (w_fingerprint w) (dateNow E (ticks st)) (seenAt st)),
                          ticks := Suc (ticks st) \<rparr>)
                 in routedLoop E cfg sk (resolveWarningPolicy E cfg) rest
                      (case p of Some x \<Rightarrow> ups @ [x] | None \<Rightarrow> ups)
                      ((w_fingerprint w @ '':'' @ trim (w_text w)) # seen) st2))"
proof (intro conjI impI)
  let ?pol = "resolveWarningPolicy E cfg"
  let ?k = "w_fingerprint w"
  let ?key = "w_fingerprint w @ '':'' @ trim (w_text w)"
  {
    let ?t0 = "dateNow E (ticks st0)"
    let ?r = "shouldEmitByFingerprintRateLimit ?k (dedupeWindowMs ?pol) ?t0 (seenAt st0)"
    assume a: "length (seenAt st0) \<le> WARNING_FINGERPRINT_CACHE_LIMIT
          \<and> (\<forall>e\<in>set (seenAt st0). snd e \<le> ?t0) \<and> fst ?r"
    then have rec: "map_of (snd ?r) ?k = Some ?t0"
      using rate_limit_records(1) [of "seenAt st0" ?t0 ?k "dedupeWindowMs ?pol"] by simp
    from a obtain m where r: "?r = (True, m)" by (cases ?r) auto
    obtain p st2 where d: "deliverWarning E cfg sk ?pol w (trim (w_text w))
        (st0\<lparr> seenAt := m, ticks := Suc (ticks st0) \<rparr>) = (p, st2)"
      by (cases "deliverWarning E cfg sk ?pol w (trim (w_text w))
        (st0\<lparr> seenAt := m, ticks := Suc (ticks st0) \<rparr>)")
    have "snd (processWarningEvents E [w] cfg sk st0) = st2"
      using d by (simp add: process_single [OF en tx] r Let_def)
    then show "map_of (seenAt (snd (processWarningEvents E [w] cfg sk st0))) ?k = Some ?t0"
      using deliverWarning_attempt [OF d] rec r by simp
  }
  {
    assume a: "?key \<notin> set seen \<and> map_of (seenAt st) ?k = Some t1
          \<and> dateNow E (ticks st) - t1 < dedupeWindowMs ?pol"
    then show "routedLoop E cfg sk ?pol (w # rest) ups seen st
              = routedLoop E cfg sk ?pol rest ups (?key # seen) (st\<lparr> ticks := Suc (ticks st) \<rparr>)"
      using routedLoop_step [OF tx, of seen E cfg sk ?pol rest ups st]
      by (simp add: rate_limit_skip)
  }
  {
    assume a: "?key \<notin> set seen \<and> map_of (seenAt st) ?k = Some t1
          \<and> \<not> dateNow E (ticks st) - t1 < dedupeWindowMs ?pol"
    then show "routedLoop E cfg sk ?pol (w # rest) ups seen st
              = (let (p, st2) = deliverWarning E cfg sk ?pol w (trim (w_text w))
                     (st\<lparr> seenAt := pruneWarningFingerprintCache (dateNow E (ticks st))
                                       (AList.update ?k (dateNow E (ticks st)) (seenAt st)),
                          ticks := Suc (ticks st) \<rparr>)
                 in routedLoop E cfg sk ?pol rest
                      (case p of Some x \<Rightarrow> ups @ [x] | None \<Rightarrow> ups) (?key # seen) st2)"
      using routedLoop_step [OF tx, of seen E cfg sk ?pol rest ups st]
      by (simp add: rate_limit_pass)
  }
qed

text \<open>
  C10. With \<open>suppressToolErrors\<close> on, in the routed path: for a warning eligible for the
  dedicated route (a route is configured, and \<open>execOnly\<close> is off or the warning is
  exec-like), the loop body that runs once the warning has passed the rate limiter hands
  it to \<open>routeReply\<close> for the configured channel and returns no payload for the user's
  chat; so a call with such a warning, its text not empty, delivers it and returns
  nothing. In the legacy path the result is empty and nothing is delivered.
\<close>

theorem suppression_keeps_dedicated_delivery:
  assumes sup: "suppressToolErrors cfg = Some True"
  shows "(route (resolveWarningPolicy E cfg) = Some r
          \<and> (\<not> execOnly (resolveWarningPolicy E cfg) \<or> isExecLikeWarning w)
          \<longrightarrow> fst (deliverWarning E cfg sk (resolveWarningPolicy E cfg) w t st) = None
              \<and> sent (snd (deliverWarning E cfg sk (resolveWarningPolicy E cfg) w t st)) =
                  sent st @ [\<lparr> rq_payload = errorPayload t, rq_channel = r_channel r,
                               rq_to = r_to r, rq_sessionKey = sk, rq_cfg = cfg, rq_mirror = False \<rparr>])
    \<and> (enabled (resolveWarningPolicy E cfg)
          \<and> route (resolveWarningPolicy E cfg) = Some r
          \<and> (\<not> execOnly (resolveWarningPolicy E cfg) \<or> isExecLikeWarning w)
          \<and> trim (w_text w) \<noteq> []
          \<and> fst (shouldEmitByFingerprintRateLimit (w_fingerprint w)
                  (dedupeWindowMs (resolveWarningPolicy E cfg)) (dateNow E (ticks st)) (seenAt st))
          \<longrightarrow> fst (processWarningEvents E [w] cfg sk st) = []
              \<and> sent (snd (processWarningEvents E [w] cfg sk st)) =
                  sent st @ [\<lparr> rq_payload = errorPayload (trim (w_text w)), rq_channel = r_channel r,
                               rq_to = r_to r, rq_sessionKey = sk, rq_cfg = cfg, rq_mirror = False \<rparr>])
    \<and> (\<not> enabled (resolveWarningPolicy E cfg)
          \<longrightarrow> processWarningEvents E ws cfg sk st = ([], st))"
proof -
  have s: "policySuppressToolErrors (resolveWarningPolicy E cfg)"
    using sup by (simp add: resolveWarningPolicy_def Let_def)
  show ?thesis
    using s
    by (auto simp: process_single processWarningEvents_def Let_def deliverWarning_def
        shouldRouteWarningToWarningsChannel_def shouldRouteWarningToUserChat_def
        split: prod.splits option.splits)
qed

lemmas sample_eval = sampleEnv_def sampleCfg_def sampleWarning_def emptyState_def
  resolveWarningPolicy_def resolveWarningRoute_def parseOptionalBoolEnv_def orElse_def
  OPENCLAW_TOOL_WARNINGS_ENABLED_def DEFAULT_WARNING_DEDUPE_WINDOW_MS_def
  WARNING_FINGERPRINT_CACHE_LIMIT_def

lemmas router_eval = processWarningEvents_def shouldEmitByFingerprintRateLimit_def
  pruneWarningFingerprintCache_def deliverWarning_def shouldRouteWarningToWarningsChannel_def
  shouldRouteWarningToUserChat_def isExecLikeWarning_def errorPayload_def Let_def

theorem dedupe_window_witness:
  "map_of (seenAt (snd (processWarningEvents (sampleEnv [] True 500)
       [sampleWarning ''exec'' ''abc123''] (sampleCfg (Some True) False False) None emptyState)))
     ''abc123'' = Some 1000
   \<and> processWarningEvents (sampleEnv [] True 500) [sampleWarning ''exec'' ''abc123'']
      (sampleCfg (Some True) False False) None
      \<lparr> seenAt = [(''abc123'', 1000)], ticks = 1,
        sent = [sampleRequest (sampleCfg (Some True) False False)], errorLog = [] \<rparr>
    = ([], \<lparr> seenAt = [(''abc123'', 1000)], ticks = 2,
            sent = [sampleRequest (sampleCfg (Some True) False False)], errorLog = [] \<rparr>)
   \<and> processWarningEvents (sampleEnv [] True 70000) [sampleWarning ''exec'' ''abc123'']
      (sampleCfg (Some True) False False) None
      \<lparr> seenAt = [(''abc123'', 1000)], ticks = 1,
        sent = [sampleRequest (sampleCfg (Some True) False False)], errorLog = [] \<rparr>
    = ([], \<lparr> seenAt = [(''abc123'', 71000)], ticks = 2,
            sent = [sampleRequest (sampleCfg (Some True) False False),
                    sampleRequest (sampleCfg (Some True) False False)], errorLog = [] \<rparr>)"
proof -
  let ?w = "sampleWarning ''exec'' ''abc123''" and ?cfg = "sampleCfg (Some True) False False"
  let ?st1 = "\<lparr> seenAt = [(''abc123'', 1000)], ticks = 1, sent = [sampleRequest ?cfg],
                errorLog = [] \<rparr>"
  have tx: "trim (w_text ?w) \<noteq> []" by simp
  have fp: "w_fingerprint ?w = ''abc123''" by (simp add: sampleWarning_def)
  have t: "trim (w_text ?w) = ''exec failed: exit code 1''" by simp
  have pol: "dedupeWindowMs (resolveWarningPolicy (sampleEnv [] True s) ?cfg) = 60000"
    "route (resolveWarningPolicy (sampleEnv [] True s) ?cfg)
       = Some \<lparr> r_channel = ''telegram'', r_to = ''-1003842428779'' \<rparr>"
    "execOnly (resolveWarningPolicy (sampleEnv [] True s) ?cfg)"
    "\<not> policySuppressToolErrors (resolveWarningPolicy (sampleEnv [] True s) ?cfg)" for s
    by (simp_all add: sample_eval str_eval)
  have ex: "isExecLikeWarning ?w"
    by (simp add: isExecLikeWarning_def sampleWarning_def str_eval)
  have now: "dateNow (sampleEnv [] True s) n = 1000 + s * int n" for s n
    by (simp add: sampleEnv_def)
  have rr: "routeReply (sampleEnv [] True s) n rq = \<lparr> rr_ok = True, rr_error = None \<rparr>" for s n rq
    by (simp add: sampleEnv_def)
  have dw: "deliverWarning (sampleEnv [] True s) ?cfg None
      (resolveWarningPolicy (sampleEnv [] True s) ?cfg) ?w ''exec failed: exit code 1'' st
      = (None, st\<lparr> sent := sent st @ [sampleRequest ?cfg] \<rparr>)" for s st
    by (simp add: deliverWarning_def shouldRouteWarningToWarningsChannel_def
        shouldRouteWarningToUserChat_def pol ex rr sampleRequest_def Let_def)
  show ?thesis
    using dedupe_window [where E = "sampleEnv [] True 500" and cfg = ?cfg and w = ?w
        and sk = None and st0 = emptyState and st = ?st1 and ?t1.0 = 1000 and rest = "[]"
        and ups = "[]" and seen = "[]"]
      dedupe_window [where E = "sampleEnv [] True 70000" and cfg = ?cfg and w = ?w
        and sk = None and st0 = emptyState and st = ?st1 and ?t1.0 = 1000 and rest = "[]"
        and ups = "[]" and seen = "[]"]
    by (simp add: process_first fp t pol now dw emptyState_def
        shouldEmitByFingerprintRateLimit_def pruneWarningFingerprintCache_def
        WARNING_FINGERPRINT_CACHE_LIMIT_def)
qed

text \<open>
  C3 as stated fails. 1025 calls ten milliseconds apart with fingerprints \<open>a\<close>, \<open>aa\<close>,
  ...: the first is delivered at time 1000, and the 1025th insertion evicts its
  timestamp. A call with fingerprint \<open>a\<close> at time 11250, well inside the window of one
  minute, is delivered again.
\<close>

theorem dedupe_window_evicted:
  "enabled (resolveWarningPolicy (sampleEnv [] True 10) (sampleCfg (Some True) False False))
   \<and> sent (feed 1 (Suc 0)) = [sampleRequest (sampleCfg (Some True) False False)]
   \<and> seenAt (feed 1 (Suc 0)) = [(''a'', 1000)]
   \<and> dateNow (sampleEnv [] True 10) (ticks (feed 1 1025)) = 11250
   \<and> dedupeWindowMs (resolveWarningPolicy (sampleEnv [] True 10)
        (sampleCfg (Some True) False False)) = 60000
   \<and> sent (snd (processWarningEvents (sampleEnv [] True 10) [sampleWarning ''exec'' ''a'']
        (sampleCfg (Some True) False False) None (feed 1 1025)))
     = sent (feed 1 1025) @ [sampleRequest (sampleCfg (Some True) False False)]"
proof -
  let ?E = "sampleEnv [] True 10" and ?cfg = "sampleCfg (Some True) False False"
  let ?w = "sampleWarning ''exec'' ''a''"
  let ?g = "\<lambda>i. (replicate (1 + i) CHR ''a'', 1000 + 10 * int i)"
  have pol: "dedupeWindowMs (resolveWarningPolicy ?E ?cfg) = 60000"
    "route (resolveWarningPolicy ?E ?cfg)
       = Some \<lparr> r_channel = ''telegram'', r_to = ''-1003842428779'' \<rparr>"
    "execOnly (resolveWarningPolicy ?E ?cfg)"
    by (simp_all add: sample_eval str_eval)
  have ex: "isExecLikeWarning (sampleWarning ''exec'' fp)" for fp
    by (simp add: isExecLikeWarning_def sampleWarning_def str_eval)
  have elig: "shouldRouteWarningToWarningsChannel (sampleWarning ''exec'' fp)
      (resolveWarningPolicy ?E ?cfg)" for fp
    by (simp add: shouldRouteWarningToWarningsChannel_def pol ex)
  have first: "sent (feed 1 (Suc 0)) = [sampleRequest ?cfg]
      \<and> seenAt (feed 1 (Suc 0)) = [(''a'', 1000)]"
  proof -
    obtain p st2 where d: "deliverWarning ?E ?cfg None (resolveWarningPolicy ?E ?cfg) ?w
        ''exec failed: exit code 1'' (emptyState\<lparr> seenAt := [(''a'', 1000)], ticks := Suc 0 \<rparr>)
        = (p, st2)"
      by (cases "deliverWarning ?E ?cfg None (resolveWarningPolicy ?E ?cfg) ?w
        ''exec failed: exit code 1'' (emptyState\<lparr> seenAt := [(''a'', 1000)], ticks := Suc 0 \<rparr>)")
    have lim0: "shouldEmitByFingerprintRateLimit ''a'' 60000 1000 [] = (True, [(''a'', 1000)])"
      by (simp add: shouldEmitByFingerprintRateLimit_def pruneWarningFingerprintCache_def
          WARNING_FINGERPRINT_CACHE_LIMIT_def)
    have e0: "seenAt emptyState = []" "ticks emptyState = 0" "dateNow ?E 0 = 1000"
      "w_fingerprint ?w = ''a''"
      by (simp_all add: emptyState_def sampleEnv_def sampleWarning_def)
    have "feed 1 (Suc 0) = snd (processWarningEvents ?E [?w] ?cfg None emptyState)" by simp
    also have "\<dots> = st2"
      using d by (simp add: process_single e0 pol lim0 Let_def)
    finally have "feed 1 (Suc 0) = st2" .
    then show ?thesis
      using deliverWarning_attempt [OF d] elig [of "''a''"]
      by (simp add: pol emptyState_def sampleRequest_def)
  qed
  define S where "S = feed 1 1025"
  have st: "seenAt S = map ?g [1..<1025]" "ticks S = 1025"
    using feed_evicted unfolding S_def by blast+
  have "''a'' \<notin> fst ` set (map ?g [1..<1025])"
    by (auto simp: image_iff dest!: arg_cong [where f = length])
  then have none: "map_of (seenAt S) ''a'' = None"
    unfolding st by (simp add: map_of_eq_None_iff del: upt_Suc)
  obtain m where lim: "shouldEmitByFingerprintRateLimit ''a'' 60000 11250 (seenAt S) = (True, m)"
    using none by (simp add: shouldEmitByFingerprintRateLimit_def)
  obtain p st2 where d: "deliverWarning ?E ?cfg None (resolveWarningPolicy ?E ?cfg) ?w
      ''exec failed: exit code 1'' (S\<lparr> seenAt := m, ticks := Suc 1025 \<rparr>) = (p, st2)"
    by (cases "deliverWarning ?E ?cfg None (resolveWarningPolicy ?E ?cfg) ?w
      ''exec failed: exit code 1'' (S\<lparr> seenAt := m, ticks := Suc 1025 \<rparr>)")
  have now: "dateNow ?E (ticks S) = 11250"
    by (simp add: st sampleEnv_def)
  have fpw: "w_fingerprint ?w = ''a''" by (simp add: sampleWarning_def)
  have now': "dateNow ?E 1025 = 11250" by (simp add: sampleEnv_def)
  have "snd (processWarningEvents ?E [?w] ?cfg None S) = st2"
    using d by (simp add: process_single st(2) now' fpw pol lim Let_def)
  then have "sent (snd (processWarningEvents ?E [?w] ?cfg None S)) = sent S @ [sampleRequest ?cfg]"
    using deliverWarning_attempt [OF d] elig [of "''a''"]
    by (simp add: pol sampleRequest_def)
  then show ?thesis
    using first now pol(1) sample_enabled [of True 10 False False] unfolding S_def by blast
qed

theorem suppression_keeps_dedicated_delivery_witness:
  "fst (processWarningEvents (sampleEnv [] True 500) [sampleWarning ''exec'' ''abc123'']
          (sampleCfg (Some True) True True) None emptyState) = []
   \<and> sent (snd (processWarningEvents (sampleEnv [] True 500) [sampleWarning ''exec'' ''abc123'']
          (sampleCfg (Some True) True True) None emptyState))
      = [sampleRequest (sampleCfg (Some True) True True)]
   \<and> processWarningEvents (sampleEnv [] True 500) [sampleWarning ''exec'' ''abc123'']
          (sampleCfg (Some False) True True) None emptyState = ([], emptyState)"
  using suppression_keeps_dedicated_delivery [where cfg = "sampleCfg (Some True) True True"
      and E = "sampleEnv [] True 500" and w = "sampleWarning ''exec'' ''abc123''"
      and r = "\<lparr> r_channel = ''telegram'', r_to = ''-1003842428779'' \<rparr>"
      and st = emptyState and sk = None]
    suppression_keeps_dedicated_delivery [where cfg = "sampleCfg (Some False) True True"
      and E = "sampleEnv [] True 500" and st = emptyState and sk = None
      and ws = "[sampleWarning ''exec'' ''abc123'']"]
  by (simp add: sample_eval shouldEmitByFingerprintRateLimit_def pruneWarningFingerprintCache_def
      isExecLikeWarning_def sampleRequest_def str_eval)

section \<open>Tool warnings of the payload builder\<close>

lemma str_includes_iff: "str_includes h n \<longleftrightarrow> (\<exists>a b. h = a @ n @ b)"
proof (induction h)
  case Nil
  show ?case by auto
next
  case (Cons c cs)
  show ?case
  proof
    assume "str_includes (c # cs) n"
    then consider "take (length n) (c # cs) = n" | "str_includes cs n" by auto
    then show "\<exists>a b. c # cs = a @ n @ b"
    proof cases
      case 1
      then have "c # cs = [] @ n @ drop (length n) (c # cs)"
        by (metis append_Nil append_take_drop_id)
      then show ?thesis by blast
    next
      case 2
      then obtain a b where "cs = a @ n @ b" using Cons.IH by blast
      then have "c # cs = (c # a) @ n @ b" by simp
      then show ?thesis by blast
    qed
  next
    assume "\<exists>a b. c # cs = a @ n @ b"
    then obtain a b where ab: "c # cs = a @ n @ b" by blast
    show "str_includes (c # cs) n"
    proof (cases a)
      case Nil
      then have "take (length n) (c # cs) = n" using ab by simp
      then show ?thesis by simp
    next
      case (Cons x a')
      then have "cs = a' @ n @ b" using ab by simp
      then have "str_includes cs n" using Cons.IH by blast
      then show ?thesis by simp
    qed
  qed
qed


section \<open>Raw-error suppression and warning events\<close>

lemma trim_Nil [simp]: "trim [] = []"
  by (simp add: trim_def)







text \<open>
  C6. In a turn that did not stop with \<open>error\<close>, no text is suppressed as a raw error:
  every candidate is an answer text, and one whose cleaned text is not empty and not the
  silent reply token becomes an ordinary payload, with that text and no error flag.
\<close>

theorem no_suppression_without_error:
  assumes ne: "\<not> lastAssistantErrored p"
  shows "\<not> shouldSuppressRawErrorText H p t
    \<and> answerTexts H p = candidateTexts H p
    \<and> (t \<in> set (candidateTexts H p)
         \<and> trim (d_text (parseReplyDirectives H t)) \<noteq> []
         \<and> \<not> isSilentReplyText H (trim (d_text (parseReplyDirectives H t))) (SILENT_REPLY_TOKEN H)
       \<longrightarrow> itemPayload (hasAudioAsVoiceTag H p) (directiveItem (parseReplyDirectives H t))
             \<in> set (payloads H p)
           \<and> p_text (itemPayload (hasAudioAsVoiceTag H p) (directiveItem (parseReplyDirectives H t)))
             = Some (trim (d_text (parseReplyDirectives H t)))
           \<and> p_isError (itemPayload (hasAudioAsVoiceTag H p)
               (directiveItem (parseReplyDirectives H t))) = None)"
proof (intro conjI impI)
  show "\<not> shouldSuppressRawErrorText H p t"
    using ne by (simp add: shouldSuppressRawErrorText_def)
  have "\<not> shouldSuppressRawErrorText H p c" for c
    using ne by (simp add: shouldSuppressRawErrorText_def)
  then show at: "answerTexts H p = candidateTexts H p"
    by (simp add: answerTexts_def)
  let ?d = "parseReplyDirectives H t"
  let ?pl = "itemPayload (hasAudioAsVoiceTag H p) (directiveItem ?d)"
  assume a: "t \<in> set (candidateTexts H p) \<and> trim (d_text ?d) \<noteq> []
      \<and> \<not> isSilentReplyText H (trim (d_text ?d)) (SILENT_REPLY_TOKEN H)"
  then have "d_text ?d \<noteq> []" by auto
  then have "answerItem H t = [directiveItem ?d]" by (simp add: answerItem_def Let_def)
  then have "directiveItem ?d \<in> set (answerItems H p)"
    using a unfolding answerItems_def at by force
  then have it: "directiveItem ?d \<in> set (replyItems H p)" by (simp add: replyItems_def)
  show tx: "p_text ?pl = Some (trim (d_text ?d))"
    using a by (simp add: itemPayload_def directiveItem_def)
  have "keepPayload H ?pl"
    using a tx by (simp add: keepPayload_def)
  then show "?pl \<in> set (payloads H p)"
    using it by (simp add: payloads_def)
  show "p_isError ?pl = None" by (simp add: itemPayload_def directiveItem_def)
qed

text \<open>
  C2, as amended. For a tool error classified mutating or exec-like the builder returns
  exactly one warning event, whether or not the turn has a reply and whether or not
  \<open>suppressToolErrors\<close> is set, unless the text of the warning, normalized, equals the
  normalized text of a reply item of the turn: then it returns none.
\<close>

theorem mutating_or_exec_warning:
  assumes e: "lastToolError p = Some e"
    and cls: "(case mutatingAction e of Some b \<Rightarrow> b
               | None \<Rightarrow> isLikelyMutatingToolName H (toolName e))
              \<or> toLowerCase (trim (toolName e)) \<in> {''exec'', ''bash''}"
  shows "snd (buildEmbeddedRunPayloads H now p) =
     (if duplicateWarning H p e then []
      else [\<lparr> w_kind = ''tool_error'', w_text = warningText H p e, w_toolName = toolName e,
               w_toolSummary = toolSummary H p e, w_errorText = error e,
               w_isMutating = (case mutatingAction e of Some b \<Rightarrow> b
                               | None \<Rightarrow> isLikelyMutatingToolName H (toolName e)),
               w_fingerprint = buildWarningFingerprint e, w_ts = now \<rparr>])"
proof -
  have "shouldEmitToolWarningEvent H e r s =
      (True, case mutatingAction e of Some b \<Rightarrow> b
             | None \<Rightarrow> isLikelyMutatingToolName H (toolName e))" for r s
    using cls by (auto simp: shouldEmitToolWarningEvent_def Let_def)
  then show ?thesis
    using e by (simp add: buildEmbeddedRunPayloads_def warningItems_def Let_def)
qed






section \<open>The builder on concrete turns\<close>

lemmas builder_eval = buildEmbeddedRunPayloads_def payloads_def hasAudioAsVoiceTag_def
  keepPayload_def itemPayload_def warningItems_def duplicateWarning_def warningText_def
  toolSummary_def hasUserFacingReply_def replyItems_def answerItems_def answerItem_def
  reasoningItems_def reasoningText_def toolItems_def inlineToolResults_def errorItems_def
  textItem_def directiveItem_def answerTexts_def candidateTexts_def
  shouldSuppressRawErrorText_def fallbackAnswerText_def genericErrorText_def
  normalizedGenericBillingErrorText_def normalizedErrorText_def normalizedRawErrorText_def
  normalizedFormattedRawErrorMessage_def formattedRawErrorMessage_def rawErrorFingerprint_def
  rawErrorMessage_def errorText_def lastAssistantErrored_def useMarkdown_def
  shouldEmitToolWarningEvent_def isRecoverableToolError_def RECOVERABLE_TOOL_ERROR_KEYWORDS_def
  Let_def

lemmas sample_builder_eval = sampleHelpers_def sampleParams_def sampleToolError_def
  sampleAssistant_def sampleCfg_def sampleNormalize_def sampleIsRaw_def overloadedText_def
  quoted_def warningSign_def


text \<open>
  C2 as stated fails: a mutating tool error whose warning text is already the text of
  the assistant's reply produces no warning event.
\<close>

theorem mutating_warning_deduped:
  "mutatingAction (sampleToolError ''write'' ''file missing'' (Some True)) = Some True
   \<and> snd (buildEmbeddedRunPayloads sampleHelpers 0
          (sampleParams [warningSign @ '' write failed: file missing'']
             (Some (sampleAssistant ''end_turn'' None []))
             (Some (sampleToolError ''write'' ''file missing'' (Some True))) False)) = []"
  by (simp add: builder_eval sample_builder_eval str_eval)

theorem mutating_or_exec_warning_witness:
  "map w_text (snd (buildEmbeddedRunPayloads sampleHelpers 0
          (sampleParams [''Done.''] (Some (sampleAssistant ''end_turn'' None []))
             (Some (sampleToolError ''write'' ''file missing'' None)) True)))
     = [warningSign @ '' write failed: file missing'']
   \<and> map w_text (snd (buildEmbeddedRunPayloads sampleHelpers 0
          (sampleParams [''Done.''] (Some (sampleAssistant ''stop'' None []))
             (Some (sampleToolError '' Exec '' ''Command exited with code 42'' (Some False))) True)))
     = [warningSign @ ''  Exec  failed: Command exited with code 42'']"
  using mutating_or_exec_warning [of
      "sampleParams [''Done.''] (Some (sampleAssistant ''end_turn'' None []))
         (Some (sampleToolError ''write'' ''file missing'' None)) True"
      "sampleToolError ''write'' ''file missing'' None" sampleHelpers 0]
    mutating_or_exec_warning [of
      "sampleParams [''Done.''] (Some (sampleAssistant ''stop'' None []))
         (Some (sampleToolError '' Exec '' ''Command exited with code 42'' (Some False))) True"
      "sampleToolError '' Exec '' ''Command exited with code 42'' (Some False)" sampleHelpers 0]
  by (simp add: builder_eval sample_builder_eval str_eval)

lemma trim_errorJsonPretty: "trim errorJsonPretty = errorJsonPretty"
  by (simp add: errorJsonPretty_def quoted_def str_eval)




lemma errorJson_nonempty: "errorJson \<noteq> []" "errorJsonPretty \<noteq> []"
  by (simp_all add: errorJson_def errorJsonPretty_def)


theorem no_suppression_without_error_witness:
  "\<not> shouldSuppressRawErrorText sampleHelpers
       (sampleParams [errorJsonPretty] (Some (sampleAssistant ''stop'' None [])) None False)
       errorJsonPretty
   \<and> p_text (itemPayload False
        (directiveItem (parseReplyDirectives sampleHelpers errorJsonPretty))) = Some errorJsonPretty
   \<and> itemPayload False (directiveItem (parseReplyDirectives sampleHelpers errorJsonPretty))
       \<in> set (payloads sampleHelpers
           (sampleParams [errorJsonPretty] (Some (sampleAssistant ''stop'' None [])) None False))"
proof -
  let ?p = "sampleParams [errorJsonPretty] (Some (sampleAssistant ''stop'' None [])) None False"
  have ne: "\<not> lastAssistantErrored ?p"
    by (simp add: lastAssistantErrored_def sampleParams_def sampleAssistant_def)
  have c: "candidateTexts sampleHelpers ?p = [errorJsonPretty]"
    by (simp add: candidateTexts_def sampleParams_def errorJson_nonempty)
  have d: "d_text (parseReplyDirectives sampleHelpers errorJsonPretty) = errorJsonPretty"
    by (simp add: sampleHelpers_def trim_errorJsonPretty)
  have s: "\<not> isSilentReplyText sampleHelpers errorJsonPretty (SILENT_REPLY_TOKEN sampleHelpers)"
    by (simp add: sampleHelpers_def trim_errorJsonPretty) (simp add: errorJsonPretty_def)
  have at: "answerTexts sampleHelpers ?p = [errorJsonPretty]"
    using no_suppression_without_error [OF ne, of sampleHelpers errorJsonPretty] c by simp
  have pd: "parseReplyDirectives sampleHelpers errorJsonPretty =
      \<lparr> d_text = errorJsonPretty, d_mediaUrls = None, d_audioAsVoice = None, d_replyToId = None,
        d_replyToTag = None, d_replyToCurrent = None \<rparr>"
    by (simp add: sampleHelpers_def trim_errorJsonPretty)
  have ai: "answerItems sampleHelpers ?p =
      [directiveItem (parseReplyDirectives sampleHelpers errorJsonPretty)]"
    by (simp add: answerItems_def at answerItem_def pd errorJson_nonempty)
  have ei: "errorItems sampleHelpers ?p = []"
    by (simp add: errorItems_def errorText_def sampleParams_def sampleAssistant_def sampleHelpers_def)
  have ti: "toolItems sampleHelpers ?p = []"
    by (simp add: toolItems_def inlineToolResults_def sampleParams_def)
  have ri: "reasoningItems sampleHelpers ?p = []"
    by (simp add: reasoningItems_def reasoningText_def sampleParams_def)
  have tag: "\<not> hasAudioAsVoiceTag sampleHelpers ?p"
    by (simp add: hasAudioAsVoiceTag_def replyItems_def ei ti ri ai directiveItem_def pd)
  show ?thesis
    using no_suppression_without_error [OF ne, of sampleHelpers errorJsonPretty] tag
    by (simp add: c d s trim_errorJsonPretty errorJson_nonempty)
qed


end
